theory Spec2Isabelle
  imports Main "HOL-Library.Char_ord" "HOL-Library.List_Lexorder" "HOL-Library.Multiset"
begin

section \<open>Multi-stop route script: data model\<close>

text \<open>
  A shallow embedding of \<^verbatim>\<open>multi_stop_route_cost.py\<close>. The script runs top to bottom
  inside QGIS; everything it touches outside Python is made explicit here:
  \<^item> the project registry is the list of layers in the order in which the name lookup
    \<^verbatim>\<open>mapLayersByName\<close> enumerates them;
  \<^item> the two processing algorithms and Python's formatting of a coordinate are
    parameters, gathered in the record \<open>qgis\<close>;
  \<^item> every call that leaves the script (a \<^verbatim>\<open>print\<close>, a \<^verbatim>\<open>processing.run\<close>,
    \<^verbatim>\<open>addMapLayer\<close>) is appended to a trace of events, which is the state that the
    functions pass along;
  \<^item> every \<^verbatim>\<open>raise\<close> is an \<open>Inl\<close> result that ends the run.
\<close>

subsection \<open>Attribute values and Python's comparison\<close>

text \<open>
  Values of an attribute field: integers and strings. \<^verbatim>\<open>a < b\<close> is defined between two
  integers and between two strings (lexicographic on code points); between an integer and
  a string Python raises \<^verbatim>\<open>TypeError\<close>.
\<close>

datatype val = IntV int | StrV string

datatype py_error =
    Exception string
  | KeyError string
  | TypeError
  | QgsProcessingException string

fun py_lt :: "val \<Rightarrow> val \<Rightarrow> py_error + bool" where
  "py_lt (IntV a) (IntV b) = Inr (a < b)"
| "py_lt (StrV a) (StrV b) = Inr (a < b)"
| "py_lt _ _ = Inl TypeError"

subsection \<open>Layers and features\<close>

text \<open>
  The stops layer is a point layer (configuration comment of the script), so
  \<^verbatim>\<open>feature.geometry().asPoint()\<close> is the pair of the feature's coordinates. The type
  \<open>'c\<close> of a coordinate is left open: the script only copies and formats coordinates.
\<close>

datatype crs = Crs (authid: string)

record 'c feature =
  attributes :: "(string \<times> val) list"
  asPoint :: "'c \<times> 'c"

record 'c layer =
  name :: string
  field_names :: "string list"
  getFeatures :: "'c feature list"
  crs :: crs

text \<open>\<^verbatim>\<open>feature[field]\<close>: the attribute of that name, \<^verbatim>\<open>KeyError\<close> when there is none.\<close>

definition getitem :: "'c feature \<Rightarrow> string \<Rightarrow> py_error + val" where
  "getitem f k = (case map_of (attributes f) k of None \<Rightarrow> Inl (KeyError k) | Some v \<Rightarrow> Inr v)"

text \<open>\<^verbatim>\<open>QgsProject.instance().mapLayersByName(n)\<close>: all layers of that name.\<close>

definition mapLayersByName :: "'c layer list \<Rightarrow> string \<Rightarrow> 'c layer list" where
  "mapLayersByName registry n = filter (\<lambda>l. name l = n) registry"

text \<open>\<^verbatim>\<open>fields().indexFromName(n)\<close>: the position of the field, \<open>-1\<close> when there is none.\<close>

fun indexFromName :: "string list \<Rightarrow> string \<Rightarrow> int" where
  "indexFromName [] n = -1"
| "indexFromName (f # fs) n =
     (if f = n then 0 else (let i = indexFromName fs n in if i = -1 then -1 else i + 1))"

subsection \<open>Configuration, requests and events\<close>

text \<open>
  The configuration block of the script (lines 14 to 21): three names. The functions below
  take a configuration scheme, so a configuration extended with further options is
  accepted and the further options are never read.
\<close>

record config =
  network_layer_name :: string
  stops_layer_name :: string
  order_field_name :: string

text \<open>The dictionary \<^verbatim>\<open>params\<close> of one path request (lines 93 to 100).\<close>

record 'c params =
  INPUT :: "'c layer"
  STRATEGY :: int
  SPEED_FIELD :: string
  START_POINT :: string
  END_POINT :: string
  OUTPUT :: string

text \<open>The dictionary \<^verbatim>\<open>merge_params\<close> (lines 114 to 118); \<open>'r\<close> is the type of a layer
  that a processing algorithm returns.\<close>

record 'r merge_params =
  LAYERS :: "'r list"
  CRS :: crs
  merge_OUTPUT :: string

datatype message =
    CouldNotSort string
  | FoundAndSorted nat string
  | StartingCalculation
  | CalculatingSegment nat nat nat
  | CalculationFinished
  | MergingSegments
  | RouteCreated
  | NoSegments

datatype ('c, 'r) event =
    Print message
  | RunShortestPath "'c params"
  | RunMerge "'r merge_params"
  | AddMapLayer string 'r

text \<open>
  What the script is given by its host: the algorithm \<^verbatim>\<open>qgis:shortestpathpointtopoint\<close>,
  the algorithm \<^verbatim>\<open>native:mergevectorlayers\<close> (each returns a result dictionary or raises)
  and the text that an f-string makes of a coordinate.
\<close>

record ('c, 'r) qgis =
  shortestpathpointtopoint :: "'c params \<Rightarrow> py_error + (string \<times> 'r) list"
  mergevectorlayers :: "'r merge_params \<Rightarrow> py_error + (string \<times> 'r) list"
  format_coord :: "'c \<Rightarrow> string"

text \<open>\<^verbatim>\<open>result["OUTPUT"]\<close> on a result dictionary.\<close>

definition result_output :: "(string \<times> 'r) list \<Rightarrow> py_error + 'r" where
  "result_output result =
     (case map_of result ''OUTPUT'' of None \<Rightarrow> Inl (KeyError ''OUTPUT'') | Some v \<Rightarrow> Inr v)"

definition quoted :: "string \<Rightarrow> string" where
  "quoted s = [CHR 0x27] @ s @ [CHR 0x27]"

section \<open>The script\<close>

subsection \<open>Sorting the stops (lines 46 to 55)\<close>

text \<open>
  \<^verbatim>\<open>list.sort(key=...)\<close> first computes the key of every element, in list order, then
  sorts stably and ascending, comparing keys with \<^verbatim>\<open><\<close> only; an exception of the key
  function or of a comparison ends the sort. The model is a stable insertion sort over the
  (key, element) pairs with the fallible comparison \<open>py_lt\<close>. Which comparisons the
  built-in sort makes is not modelled and does not matter here: the stable ascending order
  of comparable keys is unique, and the model raises exactly when a key is missing or two
  keys cannot be compared (lemma \<open>sort_features_succeeds_iff\<close> below).
\<close>

fun compute_keys :: "string \<Rightarrow> 'c feature list \<Rightarrow> py_error + (val \<times> 'c feature) list" where
  "compute_keys k [] = Inr []"
| "compute_keys k (f # fs) =
     (case getitem f k of
        Inl e \<Rightarrow> Inl e
      | Inr v \<Rightarrow> (case compute_keys k fs of Inl e \<Rightarrow> Inl e | Inr kvs \<Rightarrow> Inr ((v, f) # kvs)))"

fun py_insort :: "val \<times> 'a \<Rightarrow> (val \<times> 'a) list \<Rightarrow> py_error + (val \<times> 'a) list" where
  "py_insort x [] = Inr [x]"
| "py_insort x (y # ys) =
     (case py_lt (fst y) (fst x) of
        Inl e \<Rightarrow> Inl e
      | Inr True \<Rightarrow> (case py_insort x ys of Inl e \<Rightarrow> Inl e | Inr zs \<Rightarrow> Inr (y # zs))
      | Inr False \<Rightarrow> Inr (x # y # ys))"

fun py_sort :: "(val \<times> 'a) list \<Rightarrow> py_error + (val \<times> 'a) list" where
  "py_sort [] = Inr []"
| "py_sort (x # xs) = (case py_sort xs of Inl e \<Rightarrow> Inl e | Inr ys \<Rightarrow> py_insort x ys)"

definition sort_features :: "string \<Rightarrow> 'c feature list \<Rightarrow> py_error + 'c feature list" where
  "sort_features k fs =
     (case compute_keys k fs of
        Inl e \<Rightarrow> Inl e
      | Inr kvs \<Rightarrow> (case py_sort kvs of Inl e \<Rightarrow> Inl e | Inr s \<Rightarrow> Inr (map snd s)))"

subsection \<open>Section 1: fetch and sort the stop points (lines 28 to 62)\<close>

definition fetch_and_sort ::
  "'z config_scheme \<Rightarrow> 'c layer list \<Rightarrow> ('c, 'r) event list \<Rightarrow>
   ('c, 'r) event list \<times> (py_error + 'c layer \<times> 'c layer \<times> ('c \<times> 'c) list)" where
  "fetch_and_sort cfg registry tr =
     (case mapLayersByName registry (stops_layer_name cfg) of
        [] \<Rightarrow> (tr, Inl (Exception (''Stops layer not found: '' @ quoted (stops_layer_name cfg))))
      | stops_layer # _ \<Rightarrow>
     (case mapLayersByName registry (network_layer_name cfg) of
        [] \<Rightarrow> (tr, Inl (Exception (''Network layer not found: '' @ quoted (network_layer_name cfg))))
      | network_layer # _ \<Rightarrow>
     if indexFromName (field_names stops_layer) (order_field_name cfg) = -1
     then (tr, Inl (Exception (''Order field '' @ quoted (order_field_name cfg) @
                      '' not found in layer '' @ quoted (stops_layer_name cfg))))
     else
     (case sort_features (order_field_name cfg) (getFeatures stops_layer) of
        Inl e \<Rightarrow> (tr @ [Print (CouldNotSort (order_field_name cfg))], Inl e)
      | Inr stops_features \<Rightarrow>
          (tr, Inr (stops_layer, network_layer, map asPoint stops_features)))))"

subsection \<open>Section 2: calculate the route segments (lines 77 to 106)\<close>

definition point_str :: "('c, 'r) qgis \<Rightarrow> 'c \<times> 'c \<Rightarrow> crs \<Rightarrow> string" where
  "point_str q coords c =
     format_coord q (fst coords) @ '','' @ format_coord q (snd coords) @
     '' ['' @ authid c @ '']''"

definition segment_params ::
  "('c, 'r) qgis \<Rightarrow> 'c layer \<Rightarrow> crs \<Rightarrow> 'c \<times> 'c \<Rightarrow> 'c \<times> 'c \<Rightarrow> 'c params" where
  "segment_params q network_layer stops_crs start_coords end_coords =
     \<lparr> INPUT = network_layer,
       STRATEGY = 1,
       SPEED_FIELD = ''cost'',
       START_POINT = point_str q start_coords stops_crs,
       END_POINT = point_str q end_coords stops_crs,
       OUTPUT = ''memory:'' \<rparr>"

text \<open>Lines 103 and 104: run the algorithm and read \<^verbatim>\<open>result["OUTPUT"]\<close>.\<close>

definition run_shortest_path :: "('c, 'r) qgis \<Rightarrow> 'c params \<Rightarrow> py_error + 'r" where
  "run_shortest_path q params =
     (case shortestpathpointtopoint q params of
        Inl e \<Rightarrow> Inl e
      | Inr result \<Rightarrow> result_output result)"

text \<open>
  The loop \<^verbatim>\<open>for i in range(len(sorted_stops_coords) - 1)\<close>, over the list of the indices
  still to visit. Its state is the trace and \<^verbatim>\<open>route_segments\<close>. An exception of the
  algorithm, or a result without \<^verbatim>\<open>"OUTPUT"\<close>, leaves the loop at once. The stage runs
  it on \<open>[0 ..< N - 1]\<close> for \<open>N\<close> stops, so both list reads are in range; for no stop
  at all, Python's \<^verbatim>\<open>range(-1)\<close> is empty, as is \<open>[0 ..< 0 - 1]\<close> on natural numbers.
\<close>

fun segments_loop ::
  "('c, 'r) qgis \<Rightarrow> 'c layer \<Rightarrow> crs \<Rightarrow> ('c \<times> 'c) list \<Rightarrow> nat list \<Rightarrow>
   ('c, 'r) event list \<Rightarrow> 'r list \<Rightarrow> ('c, 'r) event list \<times> (py_error + 'r list)" where
  "segments_loop q network_layer stops_crs sorted_stops_coords [] tr route_segments =
     (tr, Inr route_segments)"
| "segments_loop q network_layer stops_crs sorted_stops_coords (i # is) tr route_segments =
     (let start_coords = sorted_stops_coords ! i;
          end_coords = sorted_stops_coords ! (i + 1);
          params = segment_params q network_layer stops_crs start_coords end_coords;
          tr1 = tr @ [Print (CalculatingSegment (i + 1) (i + 1) (i + 2)), RunShortestPath params]
      in case run_shortest_path q params of
           Inl e \<Rightarrow> (tr1, Inl e)
         | Inr out \<Rightarrow>
             segments_loop q network_layer stops_crs sorted_stops_coords is tr1
               (route_segments @ [out]))"

definition calculate_segments ::
  "('c, 'r) qgis \<Rightarrow> 'c layer \<Rightarrow> 'c layer \<Rightarrow> ('c \<times> 'c) list \<Rightarrow> ('c, 'r) event list \<Rightarrow>
   ('c, 'r) event list \<times> (py_error + 'r list)" where
  "calculate_segments q stops_layer network_layer sorted_stops_coords tr =
     (case segments_loop q network_layer (crs stops_layer) sorted_stops_coords
             [0 ..< length sorted_stops_coords - 1] (tr @ [Print StartingCalculation]) []
      of (tr1, Inl e) \<Rightarrow> (tr1, Inl e)
       | (tr1, Inr route_segments) \<Rightarrow> (tr1 @ [Print CalculationFinished], Inr route_segments))"

subsection \<open>Section 3: merge the segments and add the route to the project (lines 110 to 132)\<close>

text \<open>
  \<^verbatim>\<open>setName\<close> and \<^verbatim>\<open>addMapLayer\<close> (lines 125 and 126) are one event: the layer that is
  added to the project, with the name it was given.
\<close>

definition merge_and_add ::
  "('c, 'r) qgis \<Rightarrow> 'c layer \<Rightarrow> 'r list \<Rightarrow> ('c, 'r) event list \<Rightarrow>
   ('c, 'r) event list \<times> (py_error + unit)" where
  "merge_and_add q network_layer route_segments tr =
     (if route_segments \<noteq> [] then
        (let merge_params = \<lparr> LAYERS = route_segments, CRS = crs network_layer,
                               merge_OUTPUT = ''memory:'' \<rparr>;
             tr1 = tr @ [Print MergingSegments, RunMerge merge_params]
         in case mergevectorlayers q merge_params of
              Inl e \<Rightarrow> (tr1, Inl e)
            | Inr merged_result \<Rightarrow>
                (case result_output merged_result of
                   Inl e \<Rightarrow> (tr1, Inl e)
                 | Inr final_route_layer \<Rightarrow>
                     (tr1 @ [AddMapLayer ''Multi-Stop Route (from Layer)'' final_route_layer,
                             Print RouteCreated], Inr ())))
      else (tr @ [Print NoSegments], Inr ()))"

subsection \<open>The whole script\<close>

definition multi_stop_route ::
  "('c, 'r) qgis \<Rightarrow> 'z config_scheme \<Rightarrow> 'c layer list \<Rightarrow>
   ('c, 'r) event list \<times> (py_error + unit)" where
  "multi_stop_route q cfg registry =
     (case fetch_and_sort cfg registry [] of
        (tr, Inl e) \<Rightarrow> (tr, Inl e)
      | (tr, Inr (stops_layer, network_layer, sorted_stops_coords)) \<Rightarrow>
          if length sorted_stops_coords < 2
          then (tr, Inl (Exception
                  ''Fewer than two stops found in the layer. Cannot calculate a route.''))
          else
            (case calculate_segments q stops_layer network_layer sorted_stops_coords
                    (tr @ [Print (FoundAndSorted (length sorted_stops_coords)
                                    (stops_layer_name cfg))])
             of (tr1, Inl e) \<Rightarrow> (tr1, Inl e)
              | (tr1, Inr route_segments) \<Rightarrow> merge_and_add q network_layer route_segments tr1))"

section \<open>Vocabulary of the statements\<close>

subsection \<open>Observations on a trace\<close>

text \<open>The path requests, the merge requests and the layers added to the project, in the
  order of the trace.\<close>

fun path_requests :: "('c, 'r) event list \<Rightarrow> 'c params list" where
  "path_requests [] = []"
| "path_requests (RunShortestPath p # es) = p # path_requests es"
| "path_requests (_ # es) = path_requests es"

fun merge_requests :: "('c, 'r) event list \<Rightarrow> 'r merge_params list" where
  "merge_requests [] = []"
| "merge_requests (RunMerge m # es) = m # merge_requests es"
| "merge_requests (_ # es) = merge_requests es"

fun published :: "('c, 'r) event list \<Rightarrow> (string \<times> 'r) list" where
  "published [] = []"
| "published (AddMapLayer n r # es) = (n, r) # published es"
| "published (_ # es) = published es"

subsection \<open>One iteration of the loop\<close>

text \<open>The request of iteration \<open>i\<close> of the loop, and the events of that iteration.\<close>

definition request_at ::
  "('c, 'r) qgis \<Rightarrow> 'c layer \<Rightarrow> crs \<Rightarrow> ('c \<times> 'c) list \<Rightarrow> nat \<Rightarrow> 'c params" where
  "request_at q network_layer stops_crs coords i =
     segment_params q network_layer stops_crs (coords ! i) (coords ! (i + 1))"

definition segment_events ::
  "('c, 'r) qgis \<Rightarrow> 'c layer \<Rightarrow> crs \<Rightarrow> ('c \<times> 'c) list \<Rightarrow> nat \<Rightarrow> ('c, 'r) event list" where
  "segment_events q network_layer stops_crs coords i =
     [Print (CalculatingSegment (i + 1) (i + 1) (i + 2)),
      RunShortestPath (request_at q network_layer stops_crs coords i)]"

subsection \<open>Order of the keys\<close>

text \<open>Ascending order of two features by their keys: both have a key, and the key of the
  second is not below the key of the first.\<close>

definition key_le :: "string \<Rightarrow> 'c feature \<Rightarrow> 'c feature \<Rightarrow> bool" where
  "key_le k f g =
     (case (getitem f k, getitem g k) of
        (Inr a, Inr b) \<Rightarrow> py_lt b a = Inr False
      | _ \<Rightarrow> False)"

text \<open>The keys that a sort can order: every feature has the field, and any two of the
  keys can be compared.\<close>

definition comparable :: "val \<Rightarrow> val \<Rightarrow> bool" where
  "comparable a b = (case py_lt a b of Inl e \<Rightarrow> False | Inr r \<Rightarrow> True)"

definition sortable_keys :: "string \<Rightarrow> 'c feature list \<Rightarrow> bool" where
  "sortable_keys k fs =
     list_all (\<lambda>f. list_all (\<lambda>g.
        (case (getitem f k, getitem g k) of
           (Inr a, Inr b) \<Rightarrow> comparable a b
         | _ \<Rightarrow> False)) fs) fs"

subsection \<open>A merge algorithm that keeps the order of its layers\<close>


section \<open>The configuration surface in the words of the specification\<close>

text \<open>
  The specification lists a routing strategy among the recognized options, with the two
  values Shortest and Fastest; the script's comment on line 95 gives their codes.
\<close>

datatype strategy = Shortest | Fastest

fun strategy_code :: "strategy \<Rightarrow> int" where
  "strategy_code Shortest = 0"
| "strategy_code Fastest = 1"

record spec_config = config +
  strategy :: strategy

section \<open>A concrete project\<close>

text \<open>
  The scenario of the specification: three stops read in the order
  \<open>(0,0)\<close> with order 2, \<open>(10,0)\<close> with order 1, \<open>(5,5)\<close> with order 3. Coordinates are
  kept as their decimal text; a returned layer is a text naming what it holds.
\<close>

definition stop_a :: "string feature" where
  "stop_a = \<lparr> attributes = [(''order_id'', IntV 2)], asPoint = (''0.0'', ''0.0'') \<rparr>"

definition stop_b :: "string feature" where
  "stop_b = \<lparr> attributes = [(''order_id'', IntV 1)], asPoint = (''10.0'', ''0.0'') \<rparr>"

definition stop_c :: "string feature" where
  "stop_c = \<lparr> attributes = [(''order_id'', IntV 3)], asPoint = (''5.0'', ''5.0'') \<rparr>"

definition stops0 :: "string layer" where
  "stops0 = \<lparr> name = ''my_stops_points'', field_names = [''order_id''],
              getFeatures = [stop_a, stop_b, stop_c], crs = Crs ''EPSG:4326'' \<rparr>"

definition net0 :: "string layer" where
  "net0 = \<lparr> name = ''my_road_network'', field_names = [''cost''],
            getFeatures = [], crs = Crs ''EPSG:3857'' \<rparr>"

definition cfg0 :: config where
  "cfg0 = \<lparr> network_layer_name = ''my_road_network'', stops_layer_name = ''my_stops_points'',
            order_field_name = ''order_id'' \<rparr>"

definition q0 :: "(string, string) qgis" where
  "q0 = \<lparr> shortestpathpointtopoint =
             (\<lambda>p. Inr [(''OUTPUT'', START_POINT p @ '' -> '' @ END_POINT p)]),
          mergevectorlayers = (\<lambda>m. Inr [(''OUTPUT'', concat (LAYERS m))]),
          format_coord = (\<lambda>c. c) \<rparr>"

text \<open>The same configuration with the strategy option of the specification set to
  Shortest.\<close>

definition cfg_shortest :: spec_config where
  "cfg_shortest = \<lparr> network_layer_name = ''my_road_network'',
                     stops_layer_name = ''my_stops_points'',
                     order_field_name = ''order_id'', strategy = Shortest \<rparr>"

text \<open>A path algorithm that finds no route out of \<open>(0,0)\<close>: the second request of the
  scenario (segment index 1) raises.\<close>

definition q_nopath :: "(string, string) qgis" where
  "q_nopath = \<lparr> shortestpathpointtopoint =
             (\<lambda>p. if START_POINT p = ''0.0,0.0 [EPSG:4326]''
                  then Inl (QgsProcessingException ''There is no route from start point to end point.'')
                  else Inr [(''OUTPUT'', START_POINT p @ '' -> '' @ END_POINT p)]),
          mergevectorlayers = (\<lambda>m. Inr [(''OUTPUT'', concat (LAYERS m))]),
          format_coord = (\<lambda>c. c) \<rparr>"

text \<open>A merge algorithm that raises.\<close>

definition q_nomerge :: "(string, string) qgis" where
  "q_nomerge = \<lparr> shortestpathpointtopoint =
             (\<lambda>p. Inr [(''OUTPUT'', START_POINT p @ '' -> '' @ END_POINT p)]),
          mergevectorlayers = (\<lambda>m. Inl (QgsProcessingException ''Could not merge.'')),
          format_coord = (\<lambda>c. c) \<rparr>"

text \<open>A stops layer with a single stop, and one with none.\<close>

definition stops_single :: "string layer" where
  "stops_single = \<lparr> name = ''my_stops_points'', field_names = [''order_id''],
              getFeatures = [stop_a], crs = Crs ''EPSG:4326'' \<rparr>"

definition stops_none :: "string layer" where
  "stops_none = \<lparr> name = ''my_stops_points'', field_names = [''order_id''],
              getFeatures = [], crs = Crs ''EPSG:4326'' \<rparr>"

text \<open>A stops layer where the first and the third stop read have the same order value.\<close>

definition tie_1 :: "string feature" where
  "tie_1 = \<lparr> attributes = [(''order_id'', IntV 2)], asPoint = (''1.0'', ''1.0'') \<rparr>"

definition tie_2 :: "string feature" where
  "tie_2 = \<lparr> attributes = [(''order_id'', IntV 1)], asPoint = (''2.0'', ''2.0'') \<rparr>"

definition tie_3 :: "string feature" where
  "tie_3 = \<lparr> attributes = [(''order_id'', IntV 2)], asPoint = (''3.0'', ''3.0'') \<rparr>"

definition stops_ties :: "string layer" where
  "stops_ties = \<lparr> name = ''my_stops_points'', field_names = [''order_id''],
              getFeatures = [tie_1, tie_2, tie_3], crs = Crs ''EPSG:4326'' \<rparr>"

text \<open>A stops layer without the order field, whose features could not be sorted by it
  (they have no such attribute).\<close>

definition unlabelled_1 :: "string feature" where
  "unlabelled_1 = \<lparr> attributes = [(''label'', StrV ''a'')], asPoint = (''1.0'', ''1.0'') \<rparr>"

definition unlabelled_2 :: "string feature" where
  "unlabelled_2 = \<lparr> attributes = [(''label'', IntV 3)], asPoint = (''2.0'', ''2.0'') \<rparr>"

definition stops_nofield :: "string layer" where
  "stops_nofield = \<lparr> name = ''my_stops_points'', field_names = [''label''],
              getFeatures = [unlabelled_1, unlabelled_2], crs = Crs ''EPSG:4326'' \<rparr>"

text \<open>Two further layers that carry the configured names again.\<close>

definition stops_again :: "string layer" where
  "stops_again = \<lparr> name = ''my_stops_points'', field_names = [],
              getFeatures = [], crs = Crs ''EPSG:2180'' \<rparr>"

definition net_again :: "string layer" where
  "net_again = \<lparr> name = ''my_road_network'', field_names = [],
            getFeatures = [], crs = Crs ''EPSG:2180'' \<rparr>"

text \<open>A stops layer whose order values cannot be compared: a string and an integer.\<close>

definition mixed_1 :: "string feature" where
  "mixed_1 = \<lparr> attributes = [(''order_id'', StrV ''a'')], asPoint = (''1.0'', ''1.0'') \<rparr>"

definition mixed_2 :: "string feature" where
  "mixed_2 = \<lparr> attributes = [(''order_id'', IntV 3)], asPoint = (''2.0'', ''2.0'') \<rparr>"

definition stops_mixed :: "string layer" where
  "stops_mixed = \<lparr> name = ''my_stops_points'', field_names = [''order_id''],
              getFeatures = [mixed_1, mixed_2], crs = Crs ''EPSG:4326'' \<rparr>"




text \<open>C4\<close>

text \<open>The sorted positions of the scenario.\<close>

definition coords0 :: "(string \<times> string) list" where
  "coords0 = [(''10.0'', ''0.0''), (''0.0'', ''0.0''), (''5.0'', ''5.0'')]"

section \<open>Properties of the trace and of the loop\<close>

lemma path_requests_append: "path_requests (xs @ ys) = path_requests xs @ path_requests ys"
  by (induction xs rule: path_requests.induct) simp_all

lemma merge_requests_append: "merge_requests (xs @ ys) = merge_requests xs @ merge_requests ys"
  by (induction xs rule: merge_requests.induct) simp_all

lemma published_append: "published (xs @ ys) = published xs @ published ys"
  by (induction xs rule: published.induct) simp_all

lemma segments_loop_Cons:
  "segments_loop q n c coords (i # is) tr segs =
     (case run_shortest_path q (request_at q n c coords i) of
        Inl e \<Rightarrow> (tr @ segment_events q n c coords i, Inl e)
      | Inr out \<Rightarrow> segments_loop q n c coords is (tr @ segment_events q n c coords i) (segs @ [out]))"
  by (simp add: request_at_def segment_events_def Let_def split: sum.splits)

lemma segments_loop_ok:
  "list_all2 (\<lambda>i out. run_shortest_path q (request_at q n c coords i) = Inr out) is outs \<Longrightarrow>
   segments_loop q n c coords is tr segs =
     (tr @ concat (map (segment_events q n c coords) is), Inr (segs @ outs))"
proof (induction "is" arbitrary: tr segs outs)
  case Nil
  then show ?case by simp
next
  case (Cons i "is")
  then obtain out outs' where o: "outs = out # outs'"
    "run_shortest_path q (request_at q n c coords i) = Inr out"
    "list_all2 (\<lambda>i out. run_shortest_path q (request_at q n c coords i) = Inr out) is outs'"
    by (auto simp: list_all2_Cons1)
  show ?case
    unfolding segments_loop_Cons using o Cons.IH[OF o(3)] by simp
qed

lemma segments_loop_fail:
  "list_all2 (\<lambda>i out. run_shortest_path q (request_at q n c coords i) = Inr out) pre outs \<Longrightarrow>
   run_shortest_path q (request_at q n c coords i) = Inl e \<Longrightarrow>
   segments_loop q n c coords (pre @ i # post) tr segs =
     (tr @ concat (map (segment_events q n c coords) (pre @ [i])), Inl e)"
proof (induction pre arbitrary: tr segs outs)
  case Nil
  then show ?case unfolding append_Nil segments_loop_Cons by simp
next
  case (Cons j pre)
  then obtain out outs' where o: "outs = out # outs'"
    "run_shortest_path q (request_at q n c coords j) = Inr out"
    "list_all2 (\<lambda>i out. run_shortest_path q (request_at q n c coords i) = Inr out) pre outs'"
    by (auto simp: list_all2_Cons1)
  show ?case
    unfolding append_Cons segments_loop_Cons using o Cons.IH[OF o(3) Cons.prems(2)] by simp
qed

text \<open>Every run of the loop is one of the two.\<close>
lemma segments_loop_cases:
  obtains (ok) outs where
      "list_all2 (\<lambda>i out. run_shortest_path q (request_at q n c coords i) = Inr out) is outs"
  | (fail) pre i post outs e where "is = pre @ i # post"
      "list_all2 (\<lambda>i out. run_shortest_path q (request_at q n c coords i) = Inr out) pre outs"
      "run_shortest_path q (request_at q n c coords i) = Inl e"
proof (induction "is" arbitrary: thesis)
  case Nil
  then show ?case by simp
next
  case (Cons j js)
  show ?case
  proof (cases "run_shortest_path q (request_at q n c coords j)")
    case (Inl e)
    then show ?thesis using Cons.prems(2)[of "[]" j js "[]" e] by simp
  next
    case (Inr out)
    show ?thesis
    proof (rule Cons.IH)
      fix outs assume "list_all2 (\<lambda>i out. run_shortest_path q (request_at q n c coords i) = Inr out) js outs"
      then show thesis using Cons.prems(1)[of "out # outs"] Inr by simp
    next
      fix pre i post outs e
      assume "js = pre @ i # post"
      "list_all2 (\<lambda>i out. run_shortest_path q (request_at q n c coords i) = Inr out) pre outs"
      "run_shortest_path q (request_at q n c coords i) = Inl e"
      then show thesis using Cons.prems(2)[of "j # pre" i post "out # outs" e] Inr by simp
    qed
  qed
qed

lemma path_requests_segment_events:
  "path_requests (concat (map (segment_events q n c coords) is)) = map (request_at q n c coords) is"
  by (induction "is") (simp_all add: segment_events_def)

lemma merge_requests_segment_events:
  "merge_requests (concat (map (segment_events q n c coords) is)) = []"
  by (induction "is") (simp_all add: segment_events_def)

lemma published_segment_events:
  "published (concat (map (segment_events q n c coords) is)) = []"
  by (induction "is") (simp_all add: segment_events_def)

lemma fetch_and_sort_Inr:
  assumes "fetch_and_sort cfg reg tr = (tr', Inr (sl, nl, coords))"
  shows "tr' = tr"
    and "\<exists>ss. mapLayersByName reg (stops_layer_name cfg) = sl # ss"
    and "\<exists>ns. mapLayersByName reg (network_layer_name cfg) = nl # ns"
    and "indexFromName (field_names sl) (order_field_name cfg) \<noteq> -1"
    and "\<exists>s. sort_features (order_field_name cfg) (getFeatures sl) = Inr s \<and> coords = map asPoint s"
  using assms unfolding fetch_and_sort_def
  by (auto split: list.splits if_splits sum.splits)

lemma fetch_and_sort_Inl:
  assumes "fetch_and_sort cfg reg tr = (tr', Inl e)"
  shows "tr' = tr \<or> tr' = tr @ [Print (CouldNotSort (order_field_name cfg))]"
  using assms unfolding fetch_and_sort_def
  by (auto split: list.splits if_splits sum.splits)

lemma calculate_segments_ok:
  assumes "list_all2 (\<lambda>i out. run_shortest_path q (request_at q nl (crs sl) coords i) = Inr out)
             [0 ..< length coords - 1] outs"
  shows "calculate_segments q sl nl coords tr =
           (tr @ [Print StartingCalculation] @
            concat (map (segment_events q nl (crs sl) coords) [0 ..< length coords - 1]) @
            [Print CalculationFinished], Inr outs)"
  unfolding calculate_segments_def using segments_loop_ok[OF assms, of "tr @ [Print StartingCalculation]" "[]"]
  by simp

lemma calculate_segments_fail:
  assumes "i < length coords - 1"
    and "list_all2 (\<lambda>i out. run_shortest_path q (request_at q nl (crs sl) coords i) = Inr out)
             [0 ..< i] outs"
    and "run_shortest_path q (request_at q nl (crs sl) coords i) = Inl e"
  shows "calculate_segments q sl nl coords tr =
           (tr @ [Print StartingCalculation] @
            concat (map (segment_events q nl (crs sl) coords) [0 ..< Suc i]), Inl e)"
proof -
  have "[0 ..< length coords - 1] = [0 ..< i] @ i # [Suc i ..< length coords - 1]"
  proof -
    have "[0 ..< i + (length coords - 1 - i)] = [0 ..< i] @ [i ..< i + (length coords - 1 - i)]"
      by (rule upt_add_eq_append) simp
    then show ?thesis using assms(1) by (simp add: upt_conv_Cons)
  qed
  then show ?thesis
    unfolding calculate_segments_def
    using segments_loop_fail[OF assms(2,3), of "[Suc i ..< length coords - 1]" "tr @ [Print StartingCalculation]" "[]"]
    by simp
qed

lemma upt_split:
  assumes "[0 ..< n] = pre @ i # post"
  shows "i < n \<and> pre = [0 ..< i]"
proof -
  have l: "length pre < n" using arg_cong[OF assms, of length] by simp
  have "i = [0 ..< n] ! length pre" using assms by simp
  then have i: "i = length pre" using l by simp
  have "pre = take (length pre) [0 ..< n]" using assms by simp
  then have "pre = [0 ..< length pre]" using l by (simp add: take_upt)
  then show ?thesis using i l by simp
qed

text \<open>Every run of the loop stage ends in one of two ways.\<close>
lemma calculate_segments_cases:
  obtains (ok) outs where
      "list_all2 (\<lambda>i out. run_shortest_path q (request_at q nl (crs sl) coords i) = Inr out)
             [0 ..< length coords - 1] outs"
      "calculate_segments q sl nl coords tr =
           (tr @ [Print StartingCalculation] @
            concat (map (segment_events q nl (crs sl) coords) [0 ..< length coords - 1]) @
            [Print CalculationFinished], Inr outs)"
  | (fail) i outs e where "i < length coords - 1"
      "list_all2 (\<lambda>i out. run_shortest_path q (request_at q nl (crs sl) coords i) = Inr out)
             [0 ..< i] outs"
      "run_shortest_path q (request_at q nl (crs sl) coords i) = Inl e"
      "calculate_segments q sl nl coords tr =
           (tr @ [Print StartingCalculation] @
            concat (map (segment_events q nl (crs sl) coords) [0 ..< Suc i]), Inl e)"
proof (cases rule: segments_loop_cases[of q nl "crs sl" coords "[0 ..< length coords - 1]"])
  case (ok outs)
  then show ?thesis using that(1) calculate_segments_ok by blast
next
  case (fail pre i post outs e)
  from upt_split[OF fail(1)] have "i < length coords - 1" "pre = [0 ..< i]" by simp_all
  then show ?thesis using that(2) fail calculate_segments_fail by blast
qed

lemma outputs_exist:
  assumes "\<forall>i \<in> set is. \<exists>out. f i = Inr out"
  shows "\<exists>outs. list_all2 (\<lambda>i out. f i = Inr out) is outs"
  using assms
proof (induction "is")
  case Nil
  then show ?case by simp
next
  case (Cons i "is")
  then obtain out outs where "f i = Inr out" "list_all2 (\<lambda>i out. f i = Inr out) is outs"
    by auto
  then have "list_all2 (\<lambda>i out. f i = Inr out) (i # is) (out # outs)" by simp
  then show ?case by blast
qed

section \<open>Properties of the sort\<close>

lemma py_lt_cases:
  "py_lt a b = Inr r \<Longrightarrow> (\<exists>x y. a = IntV x \<and> b = IntV y \<and> r = (x < y)) \<or> (\<exists>x y. a = StrV x \<and> b = StrV y \<and> r = (x < y))"
  by (cases a; cases b) auto

lemma py_lt_asym: "py_lt a b = Inr True \<Longrightarrow> py_lt b a = Inr False"
  by (cases a; cases b) auto

lemma py_lt_irrefl: "py_lt a a \<noteq> Inr True"
  by (cases a) auto

lemma py_le_trans: "py_lt b a = Inr False \<Longrightarrow> py_lt c b = Inr False \<Longrightarrow> py_lt c a = Inr False"
  by (cases a; cases b; cases c) auto

lemma py_lt_error: "py_lt a b = Inl e \<Longrightarrow> e = TypeError"
  by (cases a; cases b) auto

lemma comparable_iff: "comparable a b \<longleftrightarrow> (\<exists>x y. a = IntV x \<and> b = IntV y) \<or> (\<exists>x y. a = StrV x \<and> b = StrV y)"
  by (cases a; cases b) (auto simp: comparable_def)

lemma py_insort_Cons_Inr:
  "py_insort x (y # ys) = Inr zs \<Longrightarrow>
     (py_lt (fst y) (fst x) = Inr True \<and> (\<exists>zs'. py_insort x ys = Inr zs' \<and> zs = y # zs')) \<or>
     (py_lt (fst y) (fst x) = Inr False \<and> zs = x # y # ys)"
  by (cases "py_lt (fst y) (fst x)"; cases "py_insort x ys") (simp_all split: bool.splits)

lemma py_insort_mset: "py_insort x ys = Inr zs \<Longrightarrow> mset zs = add_mset x (mset ys)"
proof (induction ys arbitrary: zs)
  case Nil
  then show ?case by auto
next
  case (Cons y ys)
  from py_insort_Cons_Inr[OF Cons.prems] show ?case
  proof
    assume "py_lt (fst y) (fst x) = Inr True \<and> (\<exists>zs'. py_insort x ys = Inr zs' \<and> zs = y # zs')"
    then obtain zs' where "py_insort x ys = Inr zs'" "zs = y # zs'" by blast
    then show ?thesis using Cons.IH by simp
  next
    assume "py_lt (fst y) (fst x) = Inr False \<and> zs = x # y # ys"
    then show ?thesis by simp
  qed
qed

lemma py_insort_set: "py_insort x ys = Inr zs \<Longrightarrow> set zs = insert x (set ys)"
  using py_insort_mset[of x ys zs] by (metis set_mset_add_mset_insert set_mset_mset)

lemma py_insort_sorted:
  "py_insort x ys = Inr zs \<Longrightarrow> sorted_wrt (\<lambda>p r. py_lt (fst r) (fst p) = Inr False) ys \<Longrightarrow>
   sorted_wrt (\<lambda>p r. py_lt (fst r) (fst p) = Inr False) zs"
proof (induction ys arbitrary: zs)
  case Nil
  then show ?case by auto
next
  case (Cons y ys)
  show ?case
  proof (cases "py_lt (fst y) (fst x)")
    case (Inl e)
    then show ?thesis using Cons.prems by simp
  next
    case (Inr r)
    show ?thesis
    proof (cases r)
      case True
      then obtain zs' where z: "py_insort x ys = Inr zs'" "zs = y # zs'"
        using Cons.prems Inr by (auto split: sum.splits)
      have "sorted_wrt (\<lambda>p r. py_lt (fst r) (fst p) = Inr False) zs'"
        using Cons.IH[OF z(1)] Cons.prems(2) by simp
      moreover have "\<forall>r\<in>set zs'. py_lt (fst r) (fst y) = Inr False"
        using py_insort_set[OF z(1)] Cons.prems(2) py_lt_asym Inr True by auto
      ultimately show ?thesis using z by simp
    next
      case False
      then have zs: "zs = x # y # ys" using Cons.prems Inr by simp
      have "\<forall>r\<in>set ys. py_lt (fst r) (fst x) = Inr False"
        using Cons.prems(2) Inr False py_le_trans by auto
      then show ?thesis using zs Cons.prems(2) Inr False by simp
    qed
  qed
qed

lemma py_insort_filter:
  "py_insort x ys = Inr zs \<Longrightarrow>
   filter (\<lambda>p. fst p = v) zs = (if fst x = v then x # filter (\<lambda>p. fst p = v) ys else filter (\<lambda>p. fst p = v) ys)"
proof (induction ys arbitrary: zs)
  case Nil
  then show ?case by auto
next
  case (Cons y ys)
  from py_insort_Cons_Inr[OF Cons.prems] show ?case
  proof
    assume a: "py_lt (fst y) (fst x) = Inr True \<and> (\<exists>zs'. py_insort x ys = Inr zs' \<and> zs = y # zs')"
    then obtain zs' where z: "py_insort x ys = Inr zs'" "zs = y # zs'" by blast
    have "fst y \<noteq> fst x" using a py_lt_irrefl[of "fst x"] by auto
    then show ?thesis using Cons.IH[OF z(1)] z(2) by auto
  next
    assume "py_lt (fst y) (fst x) = Inr False \<and> zs = x # y # ys"
    then show ?thesis by simp
  qed
qed

lemma py_sort_Cons_Inr:
  "py_sort (x # xs) = Inr zs \<Longrightarrow> \<exists>ys. py_sort xs = Inr ys \<and> py_insort x ys = Inr zs"
  by (cases "py_sort xs") simp_all

lemma py_sort_mset: "py_sort xs = Inr zs \<Longrightarrow> mset zs = mset xs"
proof (induction xs arbitrary: zs)
  case Nil
  then show ?case by simp
next
  case (Cons x xs)
  from py_sort_Cons_Inr[OF Cons.prems] obtain ys where
    ys: "py_sort xs = Inr ys" "py_insort x ys = Inr zs" by blast
  show ?case using Cons.IH[OF ys(1)] py_insort_mset[OF ys(2)] by simp
qed

lemma py_sort_sorted: "py_sort xs = Inr zs \<Longrightarrow> sorted_wrt (\<lambda>p r. py_lt (fst r) (fst p) = Inr False) zs"
proof (induction xs arbitrary: zs)
  case Nil
  then show ?case by simp
next
  case (Cons x xs)
  from py_sort_Cons_Inr[OF Cons.prems] obtain ys where
    ys: "py_sort xs = Inr ys" "py_insort x ys = Inr zs" by blast
  show ?case using py_insort_sorted[OF ys(2) Cons.IH[OF ys(1)]] .
qed

lemma py_sort_stable: "py_sort xs = Inr zs \<Longrightarrow> filter (\<lambda>p. fst p = v) zs = filter (\<lambda>p. fst p = v) xs"
proof (induction xs arbitrary: zs)
  case Nil
  then show ?case by simp
next
  case (Cons x xs)
  from py_sort_Cons_Inr[OF Cons.prems] obtain ys where
    ys: "py_sort xs = Inr ys" "py_insort x ys = Inr zs" by blast
  show ?case using Cons.IH[OF ys(1)] py_insort_filter[OF ys(2), of v] by simp
qed

lemma py_insort_total:
  "\<forall>y\<in>set ys. comparable (fst y) (fst x) \<Longrightarrow> \<exists>zs. py_insort x ys = Inr zs"
proof (induction ys)
  case Nil
  then show ?case by simp
next
  case (Cons y ys)
  then obtain r where r: "py_lt (fst y) (fst x) = Inr r"
    by (cases "py_lt (fst y) (fst x)") (simp_all add: comparable_def)
  from Cons obtain zs where "py_insort x ys = Inr zs" by auto
  then show ?case using r by (cases r) simp_all
qed

lemma py_sort_total:
  "\<forall>x\<in>set xs. \<forall>y\<in>set xs. comparable (fst x) (fst y) \<Longrightarrow> \<exists>zs. py_sort xs = Inr zs"
proof (induction xs)
  case Nil
  then show ?case by simp
next
  case (Cons x xs)
  then obtain ys where ys: "py_sort xs = Inr ys" by auto
  have "set ys = set xs" using py_sort_mset[OF ys] by (metis set_mset_mset)
  then have "\<forall>y\<in>set ys. comparable (fst y) (fst x)" using Cons.prems by simp
  then obtain zs where "py_insort x ys = Inr zs" using py_insort_total by blast
  then show ?case using ys by simp
qed

lemma compute_keys_Inr:
  "compute_keys k fs = Inr kvs \<Longrightarrow> map snd kvs = fs \<and> (\<forall>p\<in>set kvs. getitem (snd p) k = Inr (fst p))"
  by (induction fs arbitrary: kvs) (auto split: sum.splits)

lemma compute_keys_total:
  "\<forall>f\<in>set fs. \<exists>v. getitem f k = Inr v \<Longrightarrow> \<exists>kvs. compute_keys k fs = Inr kvs"
  by (induction fs) (auto split: sum.splits)

lemma sort_features_Inr:
  assumes "sort_features k fs = Inr s"
  shows "mset s = mset fs"
    and "sorted_wrt (key_le k) s"
    and "filter (\<lambda>f. getitem f k = Inr v) s = filter (\<lambda>f. getitem f k = Inr v) fs"
proof -
  from assms obtain kvs s' where
    kvs: "compute_keys k fs = Inr kvs" and s': "py_sort kvs = Inr s'" and s: "s = map snd s'"
    unfolding sort_features_def by (auto split: sum.splits)
  from compute_keys_Inr[OF kvs] have fs: "map snd kvs = fs"
    and inv: "\<forall>p\<in>set kvs. getitem (snd p) k = Inr (fst p)" by simp_all
  have m: "mset s' = mset kvs" by (rule py_sort_mset[OF s'])
  then have "set s' = set kvs" by (metis set_mset_mset)
  with inv have inv': "\<forall>p\<in>set s'. getitem (snd p) k = Inr (fst p)" by simp
  show "mset s = mset fs"
    using m fs s by (metis mset_map)
  have "sorted_wrt (\<lambda>p r. key_le k (snd p) (snd r)) s'"
    using py_sort_sorted[OF s'] inv'
    by (rule_tac sorted_wrt_mono_rel[where P="\<lambda>p r. py_lt (fst r) (fst p) = Inr False"])
       (auto simp: key_le_def)
  then show "sorted_wrt (key_le k) s" by (simp add: s sorted_wrt_map)
  have "filter (\<lambda>f. getitem f k = Inr v) s = map snd (filter (\<lambda>p. getitem (snd p) k = Inr v) s')"
    by (simp add: s filter_map comp_def)
  also have "filter (\<lambda>p. getitem (snd p) k = Inr v) s' = filter (\<lambda>p. fst p = v) s'"
    using inv' by (intro filter_cong) auto
  also have "\<dots> = filter (\<lambda>p. fst p = v) kvs" by (rule py_sort_stable[OF s'])
  also have "\<dots> = filter (\<lambda>p. getitem (snd p) k = Inr v) kvs"
    using inv by (intro filter_cong) auto
  also have "map snd \<dots> = filter (\<lambda>f. getitem f k = Inr v) fs"
    by (simp add: fs[symmetric] filter_map comp_def)
  finally show "filter (\<lambda>f. getitem f k = Inr v) s = filter (\<lambda>f. getitem f k = Inr v) fs" .
qed

lemma sortable_keys_D:
  assumes "sortable_keys k fs" "f \<in> set fs" "g \<in> set fs"
  shows "\<exists>a b. getitem f k = Inr a \<and> getitem g k = Inr b \<and> comparable a b"
proof -
  have "(case (getitem f k, getitem g k) of
           (Inr a, Inr b) \<Rightarrow> comparable a b
         | _ \<Rightarrow> False)"
    using assms unfolding sortable_keys_def list_all_iff by blast
  then show ?thesis
    by (cases "getitem f k"; cases "getitem g k") simp_all
qed

lemma sort_features_total:
  assumes "sortable_keys k fs"
  shows "\<exists>s. sort_features k fs = Inr s"
proof -
  have "\<forall>f\<in>set fs. \<exists>v. getitem f k = Inr v"
    using sortable_keys_D[OF assms] by blast
  then obtain kvs where kvs: "compute_keys k fs = Inr kvs"
    using compute_keys_total by blast
  from compute_keys_Inr[OF kvs] have fs: "map snd kvs = fs"
    and inv: "\<forall>p\<in>set kvs. getitem (snd p) k = Inr (fst p)" by simp_all
  have "\<forall>x\<in>set kvs. \<forall>y\<in>set kvs. comparable (fst x) (fst y)"
  proof (intro ballI)
    fix x y assume x: "x \<in> set kvs" and y: "y \<in> set kvs"
    then have "snd x \<in> set fs" "snd y \<in> set fs" using fs by force+
    from sortable_keys_D[OF assms this] inv x y show "comparable (fst x) (fst y)" by auto
  qed
  then obtain s' where "py_sort kvs = Inr s'" using py_sort_total by blast
  then show ?thesis using kvs by (simp add: sort_features_def)
qed

lemma indexFromName_absent_neg: "n \<notin> set fs \<Longrightarrow> indexFromName fs n = -1"
  by (induction fs) (auto simp: Let_def)

lemma indexFromName_present_nonneg: "n \<in> set fs \<Longrightarrow> 0 \<le> indexFromName fs n"
  by (induction fs) (auto simp: Let_def)

lemma indexFromName_absent: "indexFromName fs n = -1 \<longleftrightarrow> n \<notin> set fs"
  using indexFromName_absent_neg[of n fs] indexFromName_present_nonneg[of n fs] by auto

section \<open>Properties of a whole run\<close>

text \<open>The definitions of the concrete project and of the stages, for evaluation.\<close>

lemmas world_defs = mapLayersByName_def stops0_def net0_def cfg0_def
   getitem_def stop_a_def stop_b_def stop_c_def quoted_def
   q0_def segment_params_def point_str_def result_output_def run_shortest_path_def

lemmas script_defs = multi_stop_route_def fetch_and_sort_def sort_features_def calculate_segments_def
   merge_and_add_def

lemma merge_and_add_path_requests:
  "path_requests (fst (merge_and_add q nl segs tr)) = path_requests tr"
  by (simp add: merge_and_add_def Let_def path_requests_append split: sum.splits)


lemma merge_and_add_Inl:
  "merge_and_add q nl segs tr = (tr', Inl e) \<Longrightarrow> published tr' = published tr"
  by (auto simp: merge_and_add_def Let_def published_append split: sum.splits if_splits)

text \<open>Every run of the script ends in one of four ways.\<close>

lemma multi_stop_route_cases [case_names load_error too_few path_error planned]:
  fixes q :: "('c, 'r) qgis"
  obtains tr e where
      "fetch_and_sort cfg reg ([] :: ('c, 'r) event list) = (tr, Inl e)"
      "multi_stop_route q cfg reg = (tr, Inl e)"
  | sl nl coords where
      "fetch_and_sort cfg reg ([] :: ('c, 'r) event list) = ([], Inr (sl, nl, coords))"
      "length coords < 2"
      "multi_stop_route q cfg reg =
         ([], Inl (Exception ''Fewer than two stops found in the layer. Cannot calculate a route.''))"
  | sl nl coords i outs e where
      "fetch_and_sort cfg reg ([] :: ('c, 'r) event list) = ([], Inr (sl, nl, coords))"
      "2 \<le> length coords" "i < length coords - 1"
      "list_all2 (\<lambda>i out. run_shortest_path q (request_at q nl (crs sl) coords i) = Inr out)
         [0 ..< i] outs"
      "run_shortest_path q (request_at q nl (crs sl) coords i) = Inl e"
      "multi_stop_route q cfg reg =
         ([Print (FoundAndSorted (length coords) (stops_layer_name cfg)), Print StartingCalculation] @
          concat (map (segment_events q nl (crs sl) coords) [0 ..< Suc i]), Inl e)"
  | sl nl coords outs where
      "fetch_and_sort cfg reg ([] :: ('c, 'r) event list) = ([], Inr (sl, nl, coords))"
      "2 \<le> length coords"
      "list_all2 (\<lambda>i out. run_shortest_path q (request_at q nl (crs sl) coords i) = Inr out)
         [0 ..< length coords - 1] outs"
      "multi_stop_route q cfg reg =
         merge_and_add q nl outs
           ([Print (FoundAndSorted (length coords) (stops_layer_name cfg)), Print StartingCalculation] @
            concat (map (segment_events q nl (crs sl) coords) [0 ..< length coords - 1]) @
            [Print CalculationFinished])"
proof (cases "fetch_and_sort cfg reg ([] :: ('c, 'r) event list)")
  case (Pair tr r)
  show ?thesis
  proof (cases r)
    case (Inl e)
    then show ?thesis using Pair that(1) by (simp add: multi_stop_route_def)
  next
    case (Inr t)
    then obtain sl nl coords where t: "t = (sl, nl, coords)" by (cases t) auto
    have f: "fetch_and_sort cfg reg ([] :: ('c, 'r) event list) = ([], Inr (sl, nl, coords))"
      using Pair Inr t fetch_and_sort_Inr(1)[of cfg reg "[]" tr sl nl coords] by simp
    show ?thesis
    proof (cases "length coords < 2")
      case True
      then show ?thesis using f that(2) by (simp add: multi_stop_route_def)
    next
      case False
      then have n: "2 \<le> length coords" by simp
      show ?thesis
      proof (cases rule: calculate_segments_cases[of q nl sl coords
          "[Print (FoundAndSorted (length coords) (stops_layer_name cfg))]"])
        case (ok outs)
        then show ?thesis using f n False that(4)[of sl nl coords outs]
          by (simp add: multi_stop_route_def)
      next
        case (fail i outs e)
        then show ?thesis using f n False that(3)[of sl nl coords i outs e]
          by (simp add: multi_stop_route_def)
      qed
    qed
  qed
qed

lemma multi_stop_route_path_requests:
  "\<exists>nl c coords is. path_requests (fst (multi_stop_route q cfg reg)) = map (request_at q nl c coords) is"
proof (cases rule: multi_stop_route_cases[of cfg reg q])
  case (load_error tr e)
  from fetch_and_sort_Inl[OF load_error(1)] have "path_requests tr = []" by auto
  then show ?thesis using load_error(2) by simp
next
  case (too_few sl nl coords)
  then show ?thesis by simp
next
  case (path_error sl nl coords i outs e)
  then show ?thesis
    by (auto simp: path_requests_append path_requests_segment_events simp del: upt_Suc)
next
  case (planned sl nl coords outs)
  then show ?thesis
    by (auto simp: merge_and_add_path_requests path_requests_append path_requests_segment_events)
qed

lemma run_error_publishes_nothing:
  assumes "multi_stop_route q cfg reg = (tr, Inl e)"
  shows "published tr = []"
proof (cases rule: multi_stop_route_cases[of cfg reg q])
  case (load_error tr' e')
  from fetch_and_sort_Inl[OF load_error(1)] have "published tr' = []" by auto
  then show ?thesis using load_error(2) assms by simp
next
  case (too_few sl nl coords)
  then show ?thesis using assms by simp
next
  case (path_error sl nl coords i outs e')
  then show ?thesis using assms
    by (auto simp: published_append published_segment_events simp del: upt_Suc)
next
  case (planned sl nl coords outs)
  then have "published tr = published
           ([Print (FoundAndSorted (length coords) (stops_layer_name cfg)), Print StartingCalculation] @
            concat (map (segment_events q nl (crs sl) coords) [0 ..< length coords - 1]) @
            [Print CalculationFinished])"
    using assms merge_and_add_Inl by metis
  then show ?thesis by (simp add: published_append published_segment_events)
qed

lemma run_load_error:
  fixes q :: "('c, 'r) qgis"
  assumes "fetch_and_sort cfg reg ([] :: ('c, 'r) event list) = (tr, Inl e)"
  shows "multi_stop_route q cfg reg = (tr, Inl e)"
    and "path_requests tr = []" and "merge_requests tr = []" and "published tr = []"
proof -
  show "multi_stop_route q cfg reg = (tr, Inl e)"
    using assms by (simp add: multi_stop_route_def)
  from fetch_and_sort_Inl[OF assms]
  show "path_requests tr = []" and "merge_requests tr = []" and "published tr = []" by auto
qed

lemma run_too_few:
  fixes q :: "('c, 'r) qgis"
  assumes "fetch_and_sort cfg reg ([] :: ('c, 'r) event list) = (tr, Inr (sl, nl, coords))"
    and "length coords < 2"
  shows "multi_stop_route q cfg reg =
    ([], Inl (Exception ''Fewer than two stops found in the layer. Cannot calculate a route.''))"
  using assms fetch_and_sort_Inr(1)[OF assms(1)] by (simp add: multi_stop_route_def)

lemma run_path_failure:
  fixes q :: "('c, 'r) qgis"
  assumes "fetch_and_sort cfg reg ([] :: ('c, 'r) event list) = (tr, Inr (sl, nl, coords))"
    and "2 \<le> length coords" and "i < length coords - 1"
    and "\<forall>j < i. \<exists>out. run_shortest_path q (request_at q nl (crs sl) coords j) = Inr out"
    and "run_shortest_path q (request_at q nl (crs sl) coords i) = Inl e"
  shows "multi_stop_route q cfg reg =
         ([Print (FoundAndSorted (length coords) (stops_layer_name cfg)), Print StartingCalculation] @
          concat (map (segment_events q nl (crs sl) coords) [0 ..< Suc i]), Inl e)"
proof -
  from assms(4) obtain outs where
    outs: "list_all2 (\<lambda>i out. run_shortest_path q (request_at q nl (crs sl) coords i) = Inr out)
             [0 ..< i] outs"
    using outputs_exist[of "[0 ..< i]" "\<lambda>i. run_shortest_path q (request_at q nl (crs sl) coords i)"]
    by auto
  have tr: "tr = []" using fetch_and_sort_Inr(1)[OF assms(1)] by simp
  show ?thesis
    using assms(1,2) tr
      calculate_segments_fail[OF assms(3) outs assms(5),
        of "[Print (FoundAndSorted (length coords) (stops_layer_name cfg))]"]
    by (simp add: multi_stop_route_def del: upt_Suc)
qed


lemma fetch_and_sort_first_matches:
  assumes "mapLayersByName reg (stops_layer_name cfg) = sl # ss"
    and "mapLayersByName reg (network_layer_name cfg) = nl # ns"
  shows "fetch_and_sort cfg reg tr = fetch_and_sort cfg [sl, nl] tr"
proof -
  have "sl \<in> set (mapLayersByName reg (stops_layer_name cfg))" using assms(1) by simp
  then have s: "name sl = stops_layer_name cfg" by (simp add: mapLayersByName_def)
  have "nl \<in> set (mapLayersByName reg (network_layer_name cfg))" using assms(2) by simp
  then have n: "name nl = network_layer_name cfg" by (simp add: mapLayersByName_def)
  have s': "\<exists>ss'. mapLayersByName [sl, nl] (stops_layer_name cfg) = sl # ss'"
    using s by (simp add: mapLayersByName_def)
  have n': "\<exists>ns'. mapLayersByName [sl, nl] (network_layer_name cfg) = nl # ns'"
  proof (cases "name sl = network_layer_name cfg")
    case True
    then have "stops_layer_name cfg = network_layer_name cfg" using s by simp
    then have "sl = nl" using assms by simp
    then show ?thesis using n by (simp add: mapLayersByName_def)
  next
    case False
    then show ?thesis using n by (simp add: mapLayersByName_def)
  qed
  from s' n' obtain ss' ns' where
    "mapLayersByName [sl, nl] (stops_layer_name cfg) = sl # ss'"
    "mapLayersByName [sl, nl] (network_layer_name cfg) = nl # ns'" by blast
  then show ?thesis using assms unfolding fetch_and_sort_def by simp
qed

lemma fetch_and_sort_total:
  assumes "mapLayersByName reg (stops_layer_name cfg) = sl # ss"
    and "mapLayersByName reg (network_layer_name cfg) = nl # ns"
    and "order_field_name cfg \<in> set (field_names sl)"
    and "sortable_keys (order_field_name cfg) (getFeatures sl)"
  shows "\<exists>s. sort_features (order_field_name cfg) (getFeatures sl) = Inr s \<and>
             fetch_and_sort cfg reg tr = (tr, Inr (sl, nl, map asPoint s))"
proof -
  from sort_features_total[OF assms(4)] obtain s where
    s: "sort_features (order_field_name cfg) (getFeatures sl) = Inr s" by blast
  have "indexFromName (field_names sl) (order_field_name cfg) \<noteq> -1"
    using assms(3) by (simp add: indexFromName_absent)
  then have "fetch_and_sort cfg reg tr = (tr, Inr (sl, nl, map asPoint s))"
    using assms(1,2) s by (simp add: fetch_and_sort_def)
  then show ?thesis using s by blast
qed

lemma comparable_refl: "comparable a a"
  by (cases a) (simp_all add: comparable_def)

lemma sortable_keys_short:
  assumes "length fs < 2" and "\<forall>f \<in> set fs. \<exists>v. getitem f k = Inr v"
  shows "sortable_keys k fs"
proof (cases fs)
  case Nil
  then show ?thesis by (simp add: sortable_keys_def)
next
  case (Cons f fs')
  then have fs: "fs = [f]" using assms(1) by simp
  then obtain v where "getitem f k = Inr v" using assms(2) by auto
  then show ?thesis by (simp add: fs sortable_keys_def comparable_refl)
qed

subsection \<open>When the sort raises\<close>

lemma comparable_sym: "comparable a b \<Longrightarrow> comparable b a"
  by (auto simp: comparable_iff)

lemma comparable_trans: "comparable a b \<Longrightarrow> comparable b c \<Longrightarrow> comparable a c"
  by (auto simp: comparable_iff)

lemma py_insort_comparable:
  assumes "py_insort x ys = Inr zs"
    and "\<forall>a\<in>set ys. \<forall>b\<in>set ys. comparable (fst a) (fst b)"
  shows "\<forall>y\<in>set ys. comparable (fst x) (fst y)"
proof (cases ys)
  case Nil
  then show ?thesis by simp
next
  case (Cons y ys')
  have "comparable (fst y) (fst x)"
    using assms(1) Cons by (cases "py_lt (fst y) (fst x)") (simp_all add: comparable_def)
  then have "comparable (fst x) (fst y)" by (rule comparable_sym)
  moreover have "\<forall>z\<in>set ys. comparable (fst y) (fst z)" using assms(2) Cons by simp
  ultimately show ?thesis using comparable_trans by blast
qed

lemma py_sort_comparable:
  "py_sort xs = Inr zs \<Longrightarrow> \<forall>a\<in>set xs. \<forall>b\<in>set xs. comparable (fst a) (fst b)"
proof (induction xs arbitrary: zs)
  case Nil
  then show ?case by simp
next
  case (Cons x xs)
  from py_sort_Cons_Inr[OF Cons.prems] obtain ys where
    ys: "py_sort xs = Inr ys" "py_insort x ys = Inr zs" by blast
  have IH: "\<forall>a\<in>set xs. \<forall>b\<in>set xs. comparable (fst a) (fst b)" by (rule Cons.IH[OF ys(1)])
  have set: "set ys = set xs" using py_sort_mset[OF ys(1)] by (metis set_mset_mset)
  have x: "\<forall>y\<in>set xs. comparable (fst x) (fst y)"
    using py_insort_comparable[OF ys(2)] IH set by simp
  have "comparable (fst x) (fst x)" by (rule comparable_refl)
  then show ?case using IH x comparable_sym by auto
qed

text \<open>The sort succeeds exactly on the keys that can be compared; otherwise it raises
  the \<^verbatim>\<open>KeyError\<close> of a missing attribute or the \<^verbatim>\<open>TypeError\<close> of a comparison.\<close>

lemma sort_features_succeeds_iff:
  "(\<exists>s. sort_features k fs = Inr s) \<longleftrightarrow> sortable_keys k fs"
proof
  assume "\<exists>s. sort_features k fs = Inr s"
  then obtain kvs s' where
    kvs: "compute_keys k fs = Inr kvs" and s': "py_sort kvs = Inr s'"
    unfolding sort_features_def by (auto split: sum.splits)
  from compute_keys_Inr[OF kvs] have fs: "map snd kvs = fs"
    and inv: "\<forall>p\<in>set kvs. getitem (snd p) k = Inr (fst p)" by simp_all
  have c: "\<forall>a\<in>set kvs. \<forall>b\<in>set kvs. comparable (fst a) (fst b)" by (rule py_sort_comparable[OF s'])
  have "(case (getitem f k, getitem g k) of
           (Inr a, Inr b) \<Rightarrow> comparable a b
         | _ \<Rightarrow> False)" if "f \<in> set fs" "g \<in> set fs" for f g
  proof -
    from that fs obtain p r where "p \<in> set kvs" "f = snd p" "r \<in> set kvs" "g = snd r"
      by (metis (no_types, lifting) imageE set_map)
    then show ?thesis using inv c by simp
  qed
  then show "sortable_keys k fs" by (simp add: sortable_keys_def list_all_iff)
next
  assume "sortable_keys k fs"
  then show "\<exists>s. sort_features k fs = Inr s" by (rule sort_features_total)
qed

lemma compute_keys_error: "compute_keys k fs = Inl e \<Longrightarrow> e = KeyError k"
  by (induction fs) (auto simp: getitem_def split: sum.splits option.splits)

lemma py_insort_error: "py_insort x ys = Inl e \<Longrightarrow> e = TypeError"
proof (induction ys)
  case Nil
  then show ?case by simp
next
  case (Cons y ys)
  show ?case
  proof (cases "py_lt (fst y) (fst x)")
    case (Inl e')
    then show ?thesis using Cons.prems py_lt_error by simp
  next
    case (Inr r)
    then show ?thesis using Cons by (cases r; cases "py_insort x ys") simp_all
  qed
qed

lemma py_sort_error: "py_sort xs = Inl e \<Longrightarrow> e = TypeError"
proof (induction xs)
  case Nil
  then show ?case by simp
next
  case (Cons x xs)
  show ?case
  proof (cases "py_sort xs")
    case (Inl e')
    then show ?thesis using Cons by simp
  next
    case (Inr ys)
    then have "py_insort x ys = Inl e" using Cons.prems by simp
    then show ?thesis by (rule py_insort_error)
  qed
qed

lemma sort_features_error: "sort_features k fs = Inl e \<Longrightarrow> e = KeyError k \<or> e = TypeError"
  unfolding sort_features_def
  using compute_keys_error[of k fs e] py_sort_error
  by (cases "compute_keys k fs") (auto split: sum.splits)

subsection \<open>What the merge stage publishes\<close>





section \<open>The claims\<close>

subsection \<open>The first section: order of the stops and its errors\<close>

text \<open>
  C3. Whenever the first section returns, the positions it hands on are those of the stops
  layer's features in an order \<open>s\<close> that holds the same features, is ascending by the value
  of the order field, and keeps the read order among the features of any one value: for
  every value \<open>v\<close>, the features of value \<open>v\<close> come in \<open>s\<close> as they come in the layer.
  It does return whenever both layers are found, the field is in the schema and the
  values can be compared.
\<close>

theorem loader_sorts_stably:
  fixes sl1 :: "'c layer"
  shows
  "(fetch_and_sort cfg reg tr = (tr', Inr (sl, nl, coords)) \<longrightarrow>
      (\<exists>s. coords = map asPoint s \<and>
           mset s = mset (getFeatures sl) \<and>
           sorted_wrt (key_le (order_field_name cfg)) s \<and>
           (\<forall>v. filter (\<lambda>f. getitem f (order_field_name cfg) = Inr v) s =
                filter (\<lambda>f. getitem f (order_field_name cfg) = Inr v) (getFeatures sl)))) \<and>
   (mapLayersByName reg (stops_layer_name cfg) = sl1 # ss \<and>
    mapLayersByName reg (network_layer_name cfg) = nl1 # ns \<and>
    order_field_name cfg \<in> set (field_names sl1) \<and>
    sortable_keys (order_field_name cfg) (getFeatures sl1) \<longrightarrow>
      (\<exists>s :: 'c feature list. fetch_and_sort cfg reg tr = (tr, Inr (sl1, nl1, map asPoint s))))"
proof (intro conjI impI)
  assume f: "fetch_and_sort cfg reg tr = (tr', Inr (sl, nl, coords))"
  from fetch_and_sort_Inr(5)[OF f] obtain s where
    s: "sort_features (order_field_name cfg) (getFeatures sl) = Inr s" "coords = map asPoint s"
    by blast
  show "\<exists>s. coords = map asPoint s \<and>
           mset s = mset (getFeatures sl) \<and>
           sorted_wrt (key_le (order_field_name cfg)) s \<and>
           (\<forall>v. filter (\<lambda>f. getitem f (order_field_name cfg) = Inr v) s =
                filter (\<lambda>f. getitem f (order_field_name cfg) = Inr v) (getFeatures sl))"
    using s(2) sort_features_Inr[OF s(1)] by blast
next
  assume a: "mapLayersByName reg (stops_layer_name cfg) = sl1 # ss \<and>
    mapLayersByName reg (network_layer_name cfg) = nl1 # ns \<and>
    order_field_name cfg \<in> set (field_names sl1) \<and>
    sortable_keys (order_field_name cfg) (getFeatures sl1)"
  then have h: "mapLayersByName reg (stops_layer_name cfg) = sl1 # ss"
    "mapLayersByName reg (network_layer_name cfg) = nl1 # ns"
    "order_field_name cfg \<in> set (field_names sl1)"
    "sortable_keys (order_field_name cfg) (getFeatures sl1)" by simp_all
  from fetch_and_sort_total[OF h, of tr]
  show "\<exists>s :: 'c feature list. fetch_and_sort cfg reg tr = (tr, Inr (sl1, nl1, map asPoint s))"
    by auto
qed

theorem loader_sorts_stably_witness:
  "fetch_and_sort cfg0 [stops_ties, net0] ([] :: (string, string) event list) =
     ([], Inr (stops_ties, net0, [(''2.0'', ''2.0''), (''1.0'', ''1.0''), (''3.0'', ''3.0'')])) \<and>
   sortable_keys (order_field_name cfg0) (getFeatures stops_ties) \<and>
   (\<exists>s :: string feature list.
        [(''2.0'', ''2.0''), (''1.0'', ''1.0''), (''3.0'', ''3.0'')] = map asPoint s \<and>
        sorted_wrt (key_le ''order_id'') s \<and>
        filter (\<lambda>f. getitem f ''order_id'' = Inr (IntV 2)) s = [tie_1, tie_3])"
proof -
  have f: "fetch_and_sort cfg0 [stops_ties, net0] ([] :: (string, string) event list) =
     ([], Inr (stops_ties, net0, [(''2.0'', ''2.0''), (''1.0'', ''1.0''), (''3.0'', ''3.0'')]))"
    by (simp add: script_defs world_defs tie_1_def tie_2_def tie_3_def stops_ties_def)
  have k: "sortable_keys (order_field_name cfg0) (getFeatures stops_ties)"
    by (simp add: sortable_keys_def comparable_def world_defs tie_1_def tie_2_def tie_3_def stops_ties_def)
  have g: "filter (\<lambda>f. getitem f ''order_id'' = Inr (IntV 2)) (getFeatures stops_ties) = [tie_1, tie_3]"
    by (simp add: world_defs tie_1_def tie_2_def tie_3_def stops_ties_def)
  have o: "order_field_name cfg0 = ''order_id''" by (simp add: cfg0_def)
  note t = loader_sorts_stably[where cfg=cfg0 and reg="[stops_ties, net0]"
      and tr="[] :: (string, string) event list" and tr'="[]" and sl=stops_ties and nl=net0
      and coords="[(''2.0'', ''2.0''), (''1.0'', ''1.0''), (''3.0'', ''3.0'')]", THEN conjunct1]
  from t[rule_format, OF f]
  obtain s :: "string feature list" where
    s: "[(''2.0'', ''2.0''), (''1.0'', ''1.0''), (''3.0'', ''3.0'')] = map asPoint s \<and>
        mset s = mset (getFeatures stops_ties) \<and>
        sorted_wrt (key_le (order_field_name cfg0)) s \<and>
        (\<forall>v. filter (\<lambda>f. getitem f (order_field_name cfg0) = Inr v) s =
                filter (\<lambda>f. getitem f (order_field_name cfg0) = Inr v) (getFeatures stops_ties))" ..
  have "[(''2.0'', ''2.0''), (''1.0'', ''1.0''), (''3.0'', ''3.0'')] = map asPoint s \<and>
        sorted_wrt (key_le ''order_id'') s \<and>
        filter (\<lambda>f. getitem f ''order_id'' = Inr (IntV 2)) s = [tie_1, tie_3]"
    using s g o by simp
  then have "\<exists>s :: string feature list.
        [(''2.0'', ''2.0''), (''1.0'', ''1.0''), (''3.0'', ''3.0'')] = map asPoint s \<and>
        sorted_wrt (key_le ''order_id'') s \<and>
        filter (\<lambda>f. getitem f ''order_id'' = Inr (IntV 2)) s = [tie_1, tie_3]" ..
  then show ?thesis using f k by simp
qed

text \<open>
  C4, as amended. When the stops layer is found and the order field is not in its schema,
  the run raises with an empty trace: nothing was printed by a failed sort, and no path
  request was issued. When the network layer is found too, the exception is that of
  lines 41 to 43, whose message names the field and the layer; when it is not, the lookup
  of lines 34 to 36, which runs before the field check, has raised, and the message names
  the network layer.
\<close>

theorem missing_order_field_raises_first:
  fixes q :: "('c, 'r) qgis"
  assumes "mapLayersByName reg (stops_layer_name cfg) = sl # ss"
    and "order_field_name cfg \<notin> set (field_names sl)"
  shows "(mapLayersByName reg (network_layer_name cfg) = nl # ns \<longrightarrow>
            multi_stop_route q cfg reg =
              ([], Inl (Exception (''Order field '' @ quoted (order_field_name cfg) @
                          '' not found in layer '' @ quoted (stops_layer_name cfg))))) \<and>
         (mapLayersByName reg (network_layer_name cfg) = [] \<longrightarrow>
            multi_stop_route q cfg reg =
              ([], Inl (Exception (''Network layer not found: '' @ quoted (network_layer_name cfg)))))"
proof -
  have "indexFromName (field_names sl) (order_field_name cfg) = -1"
    using assms(2) by (simp add: indexFromName_absent)
  then show ?thesis using assms(1) by (simp add: multi_stop_route_def fetch_and_sort_def)
qed

theorem missing_order_field_raises_first_witness:
  "mapLayersByName [stops_nofield, net0] (stops_layer_name cfg0) = [stops_nofield] \<and>
   mapLayersByName [stops_nofield, net0] (network_layer_name cfg0) = [net0] \<and>
   order_field_name cfg0 \<notin> set (field_names stops_nofield) \<and>
   sort_features (order_field_name cfg0) (getFeatures stops_nofield) = Inl (KeyError ''order_id'') \<and>
   multi_stop_route q0 cfg0 [stops_nofield, net0] =
     ([], Inl (Exception (''Order field '' @ quoted ''order_id'' @
                       '' not found in layer '' @ quoted ''my_stops_points''))) \<and>
   mapLayersByName [stops_nofield] (stops_layer_name cfg0) = [stops_nofield] \<and>
   mapLayersByName [stops_nofield] (network_layer_name cfg0) = [] \<and>
   multi_stop_route q0 cfg0 [stops_nofield] =
     ([], Inl (Exception (''Network layer not found: '' @ quoted ''my_road_network'')))"
proof -
  have s: "mapLayersByName [stops_nofield, net0] (stops_layer_name cfg0) = [stops_nofield]"
    by (simp add: world_defs unlabelled_1_def unlabelled_2_def stops_nofield_def)
  have n: "mapLayersByName [stops_nofield, net0] (network_layer_name cfg0) = [net0]"
    by (simp add: world_defs unlabelled_1_def unlabelled_2_def stops_nofield_def)
  have a: "order_field_name cfg0 \<notin> set (field_names stops_nofield)"
    by (simp add: world_defs unlabelled_1_def unlabelled_2_def stops_nofield_def)
  have k: "sort_features (order_field_name cfg0) (getFeatures stops_nofield) = Inl (KeyError ''order_id'')"
    by (simp add: sort_features_def world_defs unlabelled_1_def unlabelled_2_def stops_nofield_def)
  have r: "multi_stop_route q0 cfg0 [stops_nofield, net0] =
     ([], Inl (Exception (''Order field '' @ quoted ''order_id'' @
                       '' not found in layer '' @ quoted ''my_stops_points'')))"
    using missing_order_field_raises_first[where q=q0 and nl=net0 and ns="[]", OF s a] n
    by (simp add: cfg0_def)
  have s': "mapLayersByName [stops_nofield] (stops_layer_name cfg0) = [stops_nofield]"
    by (simp add: world_defs unlabelled_1_def unlabelled_2_def stops_nofield_def)
  have n': "mapLayersByName [stops_nofield] (network_layer_name cfg0) = []"
    by (simp add: world_defs unlabelled_1_def unlabelled_2_def stops_nofield_def)
  have r': "multi_stop_route q0 cfg0 [stops_nofield] =
     ([], Inl (Exception (''Network layer not found: '' @ quoted ''my_road_network'')))"
    using missing_order_field_raises_first[where q=q0, OF s' a] n'
    by (simp add: cfg0_def)
  show ?thesis using s n a k r s' n' r' by blast
qed

text \<open>
  C4 as it is stated fails: in a project that holds the stops layer without the order
  field and no network layer, the exception names the network layer, not the field.
\<close>

theorem missing_order_field_other_message_counterexample:
  "mapLayersByName [stops_nofield] (stops_layer_name cfg0) = [stops_nofield] \<and>
   order_field_name cfg0 \<notin> set (field_names stops_nofield) \<and>
   multi_stop_route q0 cfg0 [stops_nofield] =
     ([], Inl (Exception (''Network layer not found: '' @ quoted ''my_road_network''))) \<and>
   multi_stop_route q0 cfg0 [stops_nofield] \<noteq>
     ([], Inl (Exception (''Order field '' @ quoted ''order_id'' @
                       '' not found in layer '' @ quoted ''my_stops_points'')))"
  by (simp add: multi_stop_route_def fetch_and_sort_def world_defs unlabelled_1_def unlabelled_2_def
      stops_nofield_def)

text \<open>
  C5. When the first section yields fewer than two stops, the run raises the exception of
  lines 65 to 68 and issues no path request. This is the case for a stops layer with no
  feature or with one feature (that has the order field).
\<close>

theorem fewer_than_two_stops_raise:
  fixes q :: "('c, 'r) qgis"
  shows
  "(fetch_and_sort cfg reg ([] :: ('c, 'r) event list) = (tr, Inr (sl, nl, coords)) \<and>
    length coords < 2 \<longrightarrow>
      multi_stop_route q cfg reg =
        ([], Inl (Exception ''Fewer than two stops found in the layer. Cannot calculate a route.'')) \<and>
      path_requests (fst (multi_stop_route q cfg reg)) = []) \<and>
   (mapLayersByName reg (stops_layer_name cfg) = sl1 # ss \<and>
    mapLayersByName reg (network_layer_name cfg) = nl1 # ns \<and>
    order_field_name cfg \<in> set (field_names sl1) \<and>
    length (getFeatures sl1) < 2 \<and>
    (\<forall>f \<in> set (getFeatures sl1). \<exists>v. getitem f (order_field_name cfg) = Inr v) \<longrightarrow>
      multi_stop_route q cfg reg =
        ([], Inl (Exception ''Fewer than two stops found in the layer. Cannot calculate a route.'')))"
proof (intro conjI impI)
  assume a: "fetch_and_sort cfg reg ([] :: ('c, 'r) event list) = (tr, Inr (sl, nl, coords)) \<and>
    length coords < 2"
  then show r: "multi_stop_route q cfg reg =
        ([], Inl (Exception ''Fewer than two stops found in the layer. Cannot calculate a route.''))"
    using run_too_few by blast
  show "path_requests (fst (multi_stop_route q cfg reg)) = []" by (simp add: r)
next
  assume a: "mapLayersByName reg (stops_layer_name cfg) = sl1 # ss \<and>
    mapLayersByName reg (network_layer_name cfg) = nl1 # ns \<and>
    order_field_name cfg \<in> set (field_names sl1) \<and>
    length (getFeatures sl1) < 2 \<and>
    (\<forall>f \<in> set (getFeatures sl1). \<exists>v. getitem f (order_field_name cfg) = Inr v)"
  then have "sortable_keys (order_field_name cfg) (getFeatures sl1)"
    using sortable_keys_short by blast
  with a have h: "mapLayersByName reg (stops_layer_name cfg) = sl1 # ss"
    "mapLayersByName reg (network_layer_name cfg) = nl1 # ns"
    "order_field_name cfg \<in> set (field_names sl1)"
    "sortable_keys (order_field_name cfg) (getFeatures sl1)" by simp_all
  from fetch_and_sort_total[OF h, of "[] :: ('c, 'r) event list"]
  obtain s where s: "sort_features (order_field_name cfg) (getFeatures sl1) = Inr s"
    "fetch_and_sort cfg reg ([] :: ('c, 'r) event list) = ([], Inr (sl1, nl1, map asPoint s))"
    by auto
  have "length s = length (getFeatures sl1)"
    using sort_features_Inr(1)[OF s(1)] by (metis size_mset)
  then have "length (map asPoint s) < 2" using a by simp
  then show "multi_stop_route q cfg reg =
        ([], Inl (Exception ''Fewer than two stops found in the layer. Cannot calculate a route.''))"
    using run_too_few[OF s(2)] by blast
qed

theorem fewer_than_two_stops_raise_witness:
  "fetch_and_sort cfg0 [stops_single, net0] ([] :: (string, string) event list) =
     ([], Inr (stops_single, net0, [(''0.0'', ''0.0'')])) \<and>
   multi_stop_route q0 cfg0 [stops_single, net0] =
     ([], Inl (Exception ''Fewer than two stops found in the layer. Cannot calculate a route.'')) \<and>
   path_requests (fst (multi_stop_route q0 cfg0 [stops_single, net0])) = [] \<and>
   mapLayersByName [stops_none, net0] (stops_layer_name cfg0) = [stops_none] \<and>
   mapLayersByName [stops_none, net0] (network_layer_name cfg0) = [net0] \<and>
   order_field_name cfg0 \<in> set (field_names stops_none) \<and>
   length (getFeatures stops_none) = 0 \<and>
   multi_stop_route q0 cfg0 [stops_none, net0] =
     ([], Inl (Exception ''Fewer than two stops found in the layer. Cannot calculate a route.''))"
proof -
  have f: "fetch_and_sort cfg0 [stops_single, net0] ([] :: (string, string) event list) =
     ([], Inr (stops_single, net0, [(''0.0'', ''0.0'')]))"
    by (simp add: script_defs world_defs stops_single_def stops_none_def)
  have one: "multi_stop_route q0 cfg0 [stops_single, net0] =
       ([], Inl (Exception ''Fewer than two stops found in the layer. Cannot calculate a route.'')) \<and>
     path_requests (fst (multi_stop_route q0 cfg0 [stops_single, net0])) = []"
    using fewer_than_two_stops_raise[where q=q0 and cfg=cfg0 and reg="[stops_single, net0]"
        and tr="[]" and sl=stops_single and nl=net0 and coords="[(''0.0'', ''0.0'')]", THEN conjunct1] f
    by simp
  have s: "mapLayersByName [stops_none, net0] (stops_layer_name cfg0) = [stops_none]"
    by (simp add: world_defs stops_single_def stops_none_def)
  have n: "mapLayersByName [stops_none, net0] (network_layer_name cfg0) = [net0]"
    by (simp add: world_defs stops_single_def stops_none_def)
  have a: "order_field_name cfg0 \<in> set (field_names stops_none)"
    by (simp add: world_defs stops_single_def stops_none_def)
  have l: "getFeatures stops_none = []" by (simp add: stops_none_def)
  have none: "multi_stop_route q0 cfg0 [stops_none, net0] =
     ([], Inl (Exception ''Fewer than two stops found in the layer. Cannot calculate a route.''))"
    using fewer_than_two_stops_raise[where q=q0 and cfg=cfg0 and reg="[stops_none, net0]"
        and ?sl1.0=stops_none and ?nl1.0=net0 and ss="[]" and ns="[]", THEN conjunct2] s n a l
    by simp
  show ?thesis using f one s n a l none by simp
qed

subsection \<open>The planning loop\<close>

text \<open>
  C1. For \<open>N \<ge> 2\<close> sorted stops, when the path algorithm answers the request of every
  consecutive pair, the loop stage returns normally, issues exactly \<open>N - 1\<close> path requests
  and collects exactly \<open>N - 1\<close> segments; request \<open>i\<close> starts at the position of
  stop \<open>i\<close> and ends at the position of stop \<open>i + 1\<close> (each written with the CRS of the
  stops layer), and segment \<open>i\<close> is what request \<open>i\<close> returned.
\<close>

theorem planner_one_request_per_consecutive_pair:
  assumes "2 \<le> length coords"
    and "\<forall>i < length coords - 1. \<exists>out. run_shortest_path q (request_at q nl (crs sl) coords i) = Inr out"
  shows "\<exists>tr' reqs segs.
           calculate_segments q sl nl coords tr = (tr', Inr segs) \<and>
           path_requests tr' = path_requests tr @ reqs \<and>
           length reqs = length coords - 1 \<and> length segs = length coords - 1 \<and>
           (\<forall>i < length coords - 1.
              START_POINT (reqs ! i) = point_str q (coords ! i) (crs sl) \<and>
              END_POINT (reqs ! i) = point_str q (coords ! (i + 1)) (crs sl) \<and>
              run_shortest_path q (reqs ! i) = Inr (segs ! i))"
proof -
  let ?n = "length coords - 1"
  let ?req = "request_at q nl (crs sl) coords"
  from assms(2) obtain outs where
    outs: "list_all2 (\<lambda>i out. run_shortest_path q (?req i) = Inr out) [0 ..< ?n] outs"
    using outputs_exist[of "[0 ..< ?n]" "\<lambda>i. run_shortest_path q (?req i)"] by auto
  then have len: "length outs = ?n" by (auto dest: list_all2_lengthD)
  have each: "run_shortest_path q (?req i) = Inr (outs ! i)" if "i < ?n" for i
    using list_all2_nthD[OF outs, of i] that by simp
  let ?tr' = "tr @ [Print StartingCalculation] @
            concat (map (segment_events q nl (crs sl) coords) [0 ..< ?n]) @
            [Print CalculationFinished]"
  have "calculate_segments q sl nl coords tr = (?tr', Inr outs)"
    by (rule calculate_segments_ok[OF outs])
  moreover have "path_requests ?tr' = path_requests tr @ map ?req [0 ..< ?n]"
    by (simp add: path_requests_append path_requests_segment_events)
  moreover have "length (map ?req [0 ..< ?n]) = ?n" by simp
  moreover have "\<forall>i < ?n.
              START_POINT (map ?req [0 ..< ?n] ! i) = point_str q (coords ! i) (crs sl) \<and>
              END_POINT (map ?req [0 ..< ?n] ! i) = point_str q (coords ! (i + 1)) (crs sl) \<and>
              run_shortest_path q (map ?req [0 ..< ?n] ! i) = Inr (outs ! i)"
    using each by (simp add: request_at_def segment_params_def)
  ultimately show ?thesis using len by blast
qed

theorem planner_one_request_per_consecutive_pair_witness:
  "2 \<le> length coords0 \<and>
   run_shortest_path q0 (request_at q0 net0 (crs stops0) coords0 0) =
     Inr ''10.0,0.0 [EPSG:4326] -> 0.0,0.0 [EPSG:4326]'' \<and>
   run_shortest_path q0 (request_at q0 net0 (crs stops0) coords0 1) =
     Inr ''0.0,0.0 [EPSG:4326] -> 5.0,5.0 [EPSG:4326]'' \<and>
   (\<exists>tr' reqs segs.
      calculate_segments q0 stops0 net0 coords0 [] = (tr', Inr segs) \<and>
      path_requests tr' = reqs \<and> length reqs = 2 \<and> length segs = 2 \<and>
      START_POINT (reqs ! 0) = ''10.0,0.0 [EPSG:4326]'' \<and>
      END_POINT (reqs ! 0) = ''0.0,0.0 [EPSG:4326]'' \<and>
      START_POINT (reqs ! 1) = ''0.0,0.0 [EPSG:4326]'' \<and>
      END_POINT (reqs ! 1) = ''5.0,5.0 [EPSG:4326]'')"
proof -
  have n: "2 \<le> length coords0" by (simp add: coords0_def)
  have r0: "run_shortest_path q0 (request_at q0 net0 (crs stops0) coords0 0) =
     Inr ''10.0,0.0 [EPSG:4326] -> 0.0,0.0 [EPSG:4326]''"
    by (simp add: request_at_def coords0_def world_defs)
  have r1: "run_shortest_path q0 (request_at q0 net0 (crs stops0) coords0 1) =
     Inr ''0.0,0.0 [EPSG:4326] -> 5.0,5.0 [EPSG:4326]''"
    by (simp add: request_at_def coords0_def world_defs)
  have all: "\<forall>i < length coords0 - 1.
      \<exists>out. run_shortest_path q0 (request_at q0 net0 (crs stops0) coords0 i) = Inr out"
  proof (intro allI impI)
    fix i assume "i < length coords0 - 1"
    then have "i = 0 \<or> i = 1" by (auto simp: coords0_def)
    then show "\<exists>out. run_shortest_path q0 (request_at q0 net0 (crs stops0) coords0 i) = Inr out"
      using r0 r1 by auto
  qed
  from planner_one_request_per_consecutive_pair[OF n all, of "[]"]
  obtain tr' reqs segs where c:
    "calculate_segments q0 stops0 net0 coords0 [] = (tr', Inr segs)"
    "path_requests tr' = path_requests ([] :: (string, string) event list) @ reqs"
    "length reqs = length coords0 - 1" "length segs = length coords0 - 1"
    "\<forall>i < length coords0 - 1.
              START_POINT (reqs ! i) = point_str q0 (coords0 ! i) (crs stops0) \<and>
              END_POINT (reqs ! i) = point_str q0 (coords0 ! (i + 1)) (crs stops0) \<and>
              run_shortest_path q0 (reqs ! i) = Inr (segs ! i)"
    by blast
  have l: "length coords0 - 1 = 2" by (simp add: coords0_def)
  have "START_POINT (reqs ! 0) = ''10.0,0.0 [EPSG:4326]''"
       "END_POINT (reqs ! 0) = ''0.0,0.0 [EPSG:4326]''"
       "START_POINT (reqs ! 1) = ''0.0,0.0 [EPSG:4326]''"
       "END_POINT (reqs ! 1) = ''5.0,5.0 [EPSG:4326]''"
    using c(5) l by (simp_all add: coords0_def world_defs)
  then show ?thesis using n r0 r1 c(1-4) l by simp
qed

subsection \<open>Errors end the run\<close>

text \<open>
  C2. An error of any stage ends the run with that error, and a run that ends with an error
  has added no layer to the project:
  \<^item> whenever the run returns an error, no \<^verbatim>\<open>addMapLayer\<close> is in its trace;
  \<^item> an error of the first section (layer lookup, field check, sort) is the result of the
    run, with the trace as it stood: no path request and no merge;
  \<^item> fewer than two stops raise before any event;
  \<^item> when the path algorithm answers the requests before index \<open>i\<close> and raises on
    request \<open>i\<close>, the run ends with that exception after exactly the requests
    \<open>0, \<dots>, i\<close>: no later request, no merge, no layer added.
\<close>

theorem errors_abort_and_publish_nothing:
  fixes q :: "('c, 'r) qgis"
  shows
  "(snd (multi_stop_route q cfg reg) = Inl e \<longrightarrow> published (fst (multi_stop_route q cfg reg)) = []) \<and>
   (fetch_and_sort cfg reg ([] :: ('c, 'r) event list) = (tr1, Inl e1) \<longrightarrow>
      multi_stop_route q cfg reg = (tr1, Inl e1) \<and>
      path_requests tr1 = [] \<and> merge_requests tr1 = [] \<and> published tr1 = []) \<and>
   (fetch_and_sort cfg reg ([] :: ('c, 'r) event list) = (tr2, Inr (sl2, nl2, coords2)) \<and>
    length coords2 < 2 \<longrightarrow>
      multi_stop_route q cfg reg =
        ([], Inl (Exception ''Fewer than two stops found in the layer. Cannot calculate a route.''))) \<and>
   (fetch_and_sort cfg reg ([] :: ('c, 'r) event list) = (tr3, Inr (sl, nl, coords)) \<and>
    2 \<le> length coords \<and> i < length coords - 1 \<and>
    (\<forall>j < i. \<exists>out. run_shortest_path q (request_at q nl (crs sl) coords j) = Inr out) \<and>
    run_shortest_path q (request_at q nl (crs sl) coords i) = Inl e3 \<longrightarrow>
      snd (multi_stop_route q cfg reg) = Inl e3 \<and>
      path_requests (fst (multi_stop_route q cfg reg)) =
        map (request_at q nl (crs sl) coords) [0 ..< Suc i] \<and>
      merge_requests (fst (multi_stop_route q cfg reg)) = [] \<and>
      published (fst (multi_stop_route q cfg reg)) = [])"
proof (intro conjI impI)
  assume "snd (multi_stop_route q cfg reg) = Inl e"
  then have "multi_stop_route q cfg reg = (fst (multi_stop_route q cfg reg), Inl e)"
    by (metis prod.collapse)
  then show "published (fst (multi_stop_route q cfg reg)) = []"
    by (rule run_error_publishes_nothing)
next
  assume a: "fetch_and_sort cfg reg ([] :: ('c, 'r) event list) = (tr1, Inl e1)"
  show "multi_stop_route q cfg reg = (tr1, Inl e1)" by (rule run_load_error(1)[OF a])
  show "path_requests tr1 = []" by (rule run_load_error(2)[OF a])
  show "merge_requests tr1 = []" by (rule run_load_error(3)[OF a])
  show "published tr1 = []" by (rule run_load_error(4)[OF a])
next
  assume "fetch_and_sort cfg reg ([] :: ('c, 'r) event list) = (tr2, Inr (sl2, nl2, coords2)) \<and>
    length coords2 < 2"
  then show "multi_stop_route q cfg reg =
        ([], Inl (Exception ''Fewer than two stops found in the layer. Cannot calculate a route.''))"
    using run_too_few by blast
next
  assume a: "fetch_and_sort cfg reg ([] :: ('c, 'r) event list) = (tr3, Inr (sl, nl, coords)) \<and>
    2 \<le> length coords \<and> i < length coords - 1 \<and>
    (\<forall>j < i. \<exists>out. run_shortest_path q (request_at q nl (crs sl) coords j) = Inr out) \<and>
    run_shortest_path q (request_at q nl (crs sl) coords i) = Inl e3"
  then have r: "multi_stop_route q cfg reg =
         ([Print (FoundAndSorted (length coords) (stops_layer_name cfg)), Print StartingCalculation] @
          concat (map (segment_events q nl (crs sl) coords) [0 ..< Suc i]), Inl e3)"
    using run_path_failure[of cfg reg tr3 sl nl coords i q e3] by blast
  show "snd (multi_stop_route q cfg reg) = Inl e3" by (simp add: r)
  show "path_requests (fst (multi_stop_route q cfg reg)) =
        map (request_at q nl (crs sl) coords) [0 ..< Suc i]"
    by (simp add: r path_requests_append path_requests_segment_events del: upt_Suc)
  show "merge_requests (fst (multi_stop_route q cfg reg)) = []"
    by (simp add: r merge_requests_append merge_requests_segment_events del: upt_Suc)
  show "published (fst (multi_stop_route q cfg reg)) = []"
    by (simp add: r published_append published_segment_events del: upt_Suc)
qed

theorem errors_abort_and_publish_nothing_witness:
  "snd (multi_stop_route q_nomerge cfg0 [stops0, net0]) = Inl (QgsProcessingException ''Could not merge.'') \<and>
   published (fst (multi_stop_route q_nomerge cfg0 [stops0, net0])) = [] \<and>
   fetch_and_sort cfg0 [stops_mixed, net0] ([] :: (string, string) event list) =
     ([Print (CouldNotSort ''order_id'')], Inl TypeError) \<and>
   multi_stop_route q0 cfg0 [stops_mixed, net0] = ([Print (CouldNotSort ''order_id'')], Inl TypeError) \<and>
   fetch_and_sort cfg0 [stops_single, net0] ([] :: (string, string) event list) =
     ([], Inr (stops_single, net0, [(''0.0'', ''0.0'')])) \<and>
   multi_stop_route q0 cfg0 [stops_single, net0] =
     ([], Inl (Exception ''Fewer than two stops found in the layer. Cannot calculate a route.'')) \<and>
   fetch_and_sort cfg0 [stops0, net0] ([] :: (string, string) event list) =
     ([], Inr (stops0, net0, coords0)) \<and>
   run_shortest_path q_nopath (request_at q_nopath net0 (crs stops0) coords0 0) =
     Inr ''10.0,0.0 [EPSG:4326] -> 0.0,0.0 [EPSG:4326]'' \<and>
   run_shortest_path q_nopath (request_at q_nopath net0 (crs stops0) coords0 1) =
     Inl (QgsProcessingException ''There is no route from start point to end point.'') \<and>
   snd (multi_stop_route q_nopath cfg0 [stops0, net0]) =
     Inl (QgsProcessingException ''There is no route from start point to end point.'') \<and>
   length (path_requests (fst (multi_stop_route q_nopath cfg0 [stops0, net0]))) = 2 \<and>
   merge_requests (fst (multi_stop_route q_nopath cfg0 [stops0, net0])) = [] \<and>
   published (fst (multi_stop_route q_nopath cfg0 [stops0, net0])) = []"
proof -
  have m: "snd (multi_stop_route q_nomerge cfg0 [stops0, net0]) =
      Inl (QgsProcessingException ''Could not merge.'')"
    by (simp add: script_defs world_defs q_nopath_def q_nomerge_def stops_single_def mixed_1_def mixed_2_def stops_mixed_def coords0_def upt_rec)
  have m': "published (fst (multi_stop_route q_nomerge cfg0 [stops0, net0])) = []"
    using errors_abort_and_publish_nothing[where q=q_nomerge and cfg=cfg0 and reg="[stops0, net0]"
        and e="QgsProcessingException ''Could not merge.''"] m by blast
  have s: "fetch_and_sort cfg0 [stops_mixed, net0] ([] :: (string, string) event list) =
     ([Print (CouldNotSort ''order_id'')], Inl TypeError)"
    by (simp add: script_defs world_defs q_nopath_def q_nomerge_def stops_single_def mixed_1_def mixed_2_def stops_mixed_def coords0_def)
  have s': "multi_stop_route q0 cfg0 [stops_mixed, net0] = ([Print (CouldNotSort ''order_id'')], Inl TypeError)"
    using errors_abort_and_publish_nothing[where q=q0 and cfg=cfg0 and reg="[stops_mixed, net0]"
        and ?tr1.0="[Print (CouldNotSort ''order_id'')]" and ?e1.0=TypeError] s by blast
  have f: "fetch_and_sort cfg0 [stops_single, net0] ([] :: (string, string) event list) =
     ([], Inr (stops_single, net0, [(''0.0'', ''0.0'')]))"
    by (simp add: script_defs world_defs q_nopath_def q_nomerge_def stops_single_def mixed_1_def mixed_2_def stops_mixed_def coords0_def)
  have f': "multi_stop_route q0 cfg0 [stops_single, net0] =
     ([], Inl (Exception ''Fewer than two stops found in the layer. Cannot calculate a route.''))"
    using errors_abort_and_publish_nothing[where q=q0 and cfg=cfg0 and reg="[stops_single, net0]"
        and ?tr2.0="[]" and ?sl2.0=stops_single and ?nl2.0=net0 and ?coords2.0="[(''0.0'', ''0.0'')]"] f
    by simp
  have l: "fetch_and_sort cfg0 [stops0, net0] ([] :: (string, string) event list) =
     ([], Inr (stops0, net0, coords0))"
    by (simp add: script_defs world_defs q_nopath_def q_nomerge_def stops_single_def mixed_1_def mixed_2_def stops_mixed_def coords0_def)
  have r0: "run_shortest_path q_nopath (request_at q_nopath net0 (crs stops0) coords0 0) =
     Inr ''10.0,0.0 [EPSG:4326] -> 0.0,0.0 [EPSG:4326]''"
    by (simp add: request_at_def world_defs q_nopath_def q_nomerge_def stops_single_def mixed_1_def mixed_2_def stops_mixed_def coords0_def)
  have r1: "run_shortest_path q_nopath (request_at q_nopath net0 (crs stops0) coords0 1) =
     Inl (QgsProcessingException ''There is no route from start point to end point.'')"
    by (simp add: request_at_def world_defs q_nopath_def q_nomerge_def stops_single_def mixed_1_def mixed_2_def stops_mixed_def coords0_def)
  have before: "\<forall>j < 1. \<exists>out. run_shortest_path q_nopath (request_at q_nopath net0 (crs stops0) coords0 j) = Inr out"
    using r0 by simp
  have n: "2 \<le> length coords0 \<and> (1::nat) < length coords0 - 1" by (simp add: coords0_def)
  have p: "snd (multi_stop_route q_nopath cfg0 [stops0, net0]) =
       Inl (QgsProcessingException ''There is no route from start point to end point.'') \<and>
     path_requests (fst (multi_stop_route q_nopath cfg0 [stops0, net0])) =
        map (request_at q_nopath net0 (crs stops0) coords0) [0 ..< Suc 1] \<and>
     merge_requests (fst (multi_stop_route q_nopath cfg0 [stops0, net0])) = [] \<and>
     published (fst (multi_stop_route q_nopath cfg0 [stops0, net0])) = []"
    using errors_abort_and_publish_nothing[where q=q_nopath and cfg=cfg0 and reg="[stops0, net0]"
        and ?tr3.0="[]" and sl=stops0 and nl=net0 and coords=coords0 and i=1
        and ?e3.0="QgsProcessingException ''There is no route from start point to end point.''"]
      l r1 before n by blast
  then have "length (path_requests (fst (multi_stop_route q_nopath cfg0 [stops0, net0]))) = 2"
    by simp
  then show ?thesis using m m' s s' f f' l r0 r1 p by simp
qed

subsection \<open>The merge request\<close>




subsection \<open>Several layers of the same name\<close>

text \<open>
  C9. When the name lookup returns one layer or more for the stops layer name and for the
  network layer name, the script takes the first of each: the run is the run on a project
  that holds just these two layers, whatever other layers carry the same names, and the
  layers that the first section hands on are these two.
\<close>

theorem first_match_is_selected:
  fixes q :: "('c, 'r) qgis"
  assumes "mapLayersByName reg (stops_layer_name cfg) = sl # ss"
    and "mapLayersByName reg (network_layer_name cfg) = nl # ns"
  shows "multi_stop_route q cfg reg = multi_stop_route q cfg [sl, nl] \<and>
         (fetch_and_sort cfg reg (tr :: ('c, 'r) event list) = (tr', Inr (a, b, c)) \<longrightarrow> a = sl \<and> b = nl)"
proof
  show "multi_stop_route q cfg reg = multi_stop_route q cfg [sl, nl]"
    unfolding multi_stop_route_def fetch_and_sort_first_matches[OF assms] ..
  show "fetch_and_sort cfg reg tr = (tr', Inr (a, b, c)) \<longrightarrow> a = sl \<and> b = nl"
  proof
    assume f: "fetch_and_sort cfg reg tr = (tr', Inr (a, b, c))"
    from fetch_and_sort_Inr(2,3)[OF f] assms show "a = sl \<and> b = nl" by auto
  qed
qed

theorem first_match_is_selected_witness:
  "mapLayersByName [stops0, net0, stops_again, net_again] (stops_layer_name cfg0) =
     [stops0, stops_again] \<and>
   mapLayersByName [stops0, net0, stops_again, net_again] (network_layer_name cfg0) =
     [net0, net_again] \<and>
   multi_stop_route q0 cfg0 [stops0, net0, stops_again, net_again] =
     multi_stop_route q0 cfg0 [stops0, net0] \<and>
   snd (multi_stop_route q0 cfg0 [stops0, net0, stops_again, net_again]) = Inr ()"
proof -
  have s: "mapLayersByName [stops0, net0, stops_again, net_again] (stops_layer_name cfg0) =
     [stops0, stops_again]"
    by (simp add: world_defs stops_again_def net_again_def)
  have n: "mapLayersByName [stops0, net0, stops_again, net_again] (network_layer_name cfg0) =
     [net0, net_again]"
    by (simp add: world_defs stops_again_def net_again_def)
  have r: "multi_stop_route q0 cfg0 [stops0, net0, stops_again, net_again] =
     multi_stop_route q0 cfg0 [stops0, net0]"
    using first_match_is_selected[OF s n, of q0] by simp
  have "snd (multi_stop_route q0 cfg0 [stops0, net0]) = Inr ()"
    by (simp add: script_defs world_defs stops_again_def net_again_def upt_rec)
  then show ?thesis using s n r by simp
qed

subsection \<open>The cost attribute and the strategy of a request\<close>

text \<open>
  C10. In every run, with any configuration (also one extended by further options), every
  path request that the script issues names the edge-cost attribute \<^verbatim>\<open>"cost"\<close>: the
  literal of line 96, which no option changes.
\<close>

theorem cost_attribute_is_fixed:
  "\<forall>p \<in> set (path_requests (fst (multi_stop_route q cfg reg))). SPEED_FIELD p = ''cost''"
proof -
  obtain nl c coords "is" where
    "path_requests (fst (multi_stop_route q cfg reg)) = map (request_at q nl c coords) is"
    using multi_stop_route_path_requests by blast
  then show ?thesis by (simp add: request_at_def segment_params_def)
qed

theorem cost_attribute_is_fixed_witness:
  "map SPEED_FIELD (path_requests (fst (multi_stop_route q0 cfg0 [stops0, net0]))) =
     [''cost'', ''cost'']"
  using cost_attribute_is_fixed[of q0 cfg0 "[stops0, net0]"]
  by (simp add: script_defs world_defs upt_rec)

text \<open>
  C7, as amended. The script has no strategy option: in every run, with any configuration
  (also one that carries the strategy option of the specification, whatever its value),
  every path request has the strategy code 1, the code of Fastest (line 95).
\<close>

theorem strategy_is_always_fastest:
  "\<forall>p \<in> set (path_requests (fst (multi_stop_route q cfg reg))). STRATEGY p = strategy_code Fastest"
proof -
  obtain nl c coords "is" where
    "path_requests (fst (multi_stop_route q cfg reg)) = map (request_at q nl c coords) is"
    using multi_stop_route_path_requests by blast
  then show ?thesis by (simp add: request_at_def segment_params_def)
qed

theorem strategy_is_always_fastest_witness:
  "strategy cfg_shortest = Shortest \<and>
   list_all (\<lambda>p. STRATEGY p = strategy_code Fastest)
     (path_requests (fst (multi_stop_route q0 cfg_shortest [stops0, net0]))) \<and>
   length (path_requests (fst (multi_stop_route q0 cfg_shortest [stops0, net0]))) = 2"
proof -
  have "length (path_requests (fst (multi_stop_route q0 cfg_shortest [stops0, net0]))) = 2"
    by (simp add: script_defs world_defs cfg_shortest_def upt_rec)
  moreover have "strategy cfg_shortest = Shortest" by (simp add: cfg_shortest_def)
  ultimately show ?thesis
    using strategy_is_always_fastest[of q0 cfg_shortest "[stops0, net0]"]
    by (simp add: list_all_iff)
qed

text \<open>
  C7 as it is stated fails: with the strategy option set to Shortest (code 0), the two
  requests of the scenario still carry the code 1.
\<close>

theorem strategy_not_configured_counterexample:
  "map STRATEGY (path_requests (fst (multi_stop_route q0 cfg_shortest [stops0, net0]))) = [1, 1] \<and>
   strategy_code (strategy cfg_shortest) = 0"
  by (simp add: script_defs world_defs cfg_shortest_def upt_rec)

subsection \<open>The merge stage on an empty sequence\<close>

text \<open>
  C8, as amended. When the sequence of segments is empty, the merge stage runs no merge
  and adds no layer: it prints that no route segments were calculated and completes
  without an error (the \<^verbatim>\<open>else\<close> branch of lines 131 and 132).
\<close>

theorem empty_merge_completes:
  "merge_and_add q nl [] tr = (tr @ [Print NoSegments], Inr ())"
  by (simp add: merge_and_add_def)

text \<open>C8 as it is stated fails: on the empty sequence the stage returns normally.\<close>

theorem empty_merge_no_error_counterexample:
  "merge_and_add q0 net0 [] [] = ([Print NoSegments], Inr ())"
  by (simp add: merge_and_add_def)

end
